theory Spec2Isabelle
  imports Main "HOL-Library.Sublist" "HOL-Library.Multiset"
begin

section \<open>Go strings\<close>

text \<open>
  A Go string is a byte sequence; it is modelled as a \<open>char list\<close>, one \<open>char\<close>
  per byte. The functions of this section are the ones of Go's \<open>strings\<close> and \<open>fmt\<close>
  packages that the generator calls.
\<close>

definition dquote :: char where
  "dquote = CHR 0x22"

definition newline :: char where
  "newline = CHR 0x0A"

definition tab :: char where
  "tab = CHR 0x09"

text \<open>\<open>strings.Contains(s, sub)\<close>: \<open>sub\<close> occurs in \<open>s\<close> as a contiguous run of bytes.\<close>

fun strings_Contains :: "string \<Rightarrow> string \<Rightarrow> bool" where
  "strings_Contains [] sub = (sub = [])"
| "strings_Contains (c # s) sub = (prefix sub (c # s) \<or> strings_Contains s sub)"

text \<open>\<open>strings.Join(elems, sep)\<close>.\<close>

fun strings_Join :: "string list \<Rightarrow> string \<Rightarrow> string" where
  "strings_Join [] sep = []"
| "strings_Join [x] sep = x"
| "strings_Join (x # y # ys) sep = x @ sep @ strings_Join (y # ys) sep"

text \<open>
  \<open>strings.Trim(s, cutset)\<close> for a cutset of single-byte characters: the leading and the
  trailing bytes that belong to the cutset are removed.
\<close>

definition strings_Trim :: "string \<Rightarrow> string \<Rightarrow> string" where
  "strings_Trim s cutset =
     rev (dropWhile (\<lambda>c. c \<in> set cutset) (rev (dropWhile (\<lambda>c. c \<in> set cutset) s)))"

text \<open>
  \<open>strings.TrimSpace\<close> removes leading and trailing Unicode white space. The white-space
  code points are listed by their UTF-8 encodings: the six ASCII ones, U+0085, U+00A0,
  U+1680, U+2000 to U+200A, U+2028, U+2029, U+202F, U+205F and U+3000.
\<close>

definition space_seqs :: "string list" where
  "space_seqs =
     [[CHR 0x09], [CHR 0x0A], [CHR 0x0B], [CHR 0x0C], [CHR 0x0D], [CHR 0x20],
      [CHR 0xC2, CHR 0x85], [CHR 0xC2, CHR 0xA0], [CHR 0xE1, CHR 0x9A, CHR 0x80],
      [CHR 0xE2, CHR 0x80, CHR 0x80], [CHR 0xE2, CHR 0x80, CHR 0x81],
      [CHR 0xE2, CHR 0x80, CHR 0x82], [CHR 0xE2, CHR 0x80, CHR 0x83],
      [CHR 0xE2, CHR 0x80, CHR 0x84], [CHR 0xE2, CHR 0x80, CHR 0x85],
      [CHR 0xE2, CHR 0x80, CHR 0x86], [CHR 0xE2, CHR 0x80, CHR 0x87],
      [CHR 0xE2, CHR 0x80, CHR 0x88], [CHR 0xE2, CHR 0x80, CHR 0x89],
      [CHR 0xE2, CHR 0x80, CHR 0x8A], [CHR 0xE2, CHR 0x80, CHR 0xA8],
      [CHR 0xE2, CHR 0x80, CHR 0xA9], [CHR 0xE2, CHR 0x80, CHR 0xAF],
      [CHR 0xE2, CHR 0x81, CHR 0x9F], [CHR 0xE3, CHR 0x80, CHR 0x80]]"

function trim_front :: "string list \<Rightarrow> string \<Rightarrow> string" where
  "trim_front seqs s =
     (case find (\<lambda>q. prefix q s) seqs of
        None \<Rightarrow> s
      | Some q \<Rightarrow> if q = [] then s else trim_front seqs (drop (length q) s))"
  by pat_completeness auto
termination
proof (relation "measure (\<lambda>(seqs, s). length s)")
  show "wf (measure (\<lambda>(seqs, s). length s))" by simp
next
  fix seqs :: "string list" and s q :: string
  assume f: "find (\<lambda>q. prefix q s) seqs = Some q" and ne: "q \<noteq> []"
  from f have "prefix q s" by (auto simp: find_Some_iff)
  with ne have "s \<noteq> []" by auto
  with ne show "((seqs, drop (length q) s), (seqs, s)) \<in> measure (\<lambda>(seqs, s). length s)"
    by simp
qed

declare trim_front.simps [simp del]

definition strings_TrimSpace :: "string \<Rightarrow> string" where
  "strings_TrimSpace s = rev (trim_front (map rev space_seqs) (rev (trim_front space_seqs s)))"

text \<open>
  \<open>strings.Split(s, sep)\<close> for a non-empty separator: the pieces of \<open>s\<close> between the
  occurrences of \<open>sep\<close>, found from left to right without overlap. The result always has
  at least one element. (For an empty separator Go splits after every UTF-8 sequence; the
  model splits after every byte, and the generator never passes an empty separator.)
\<close>

function split_from :: "string \<Rightarrow> string \<Rightarrow> string \<Rightarrow> string list" where
  "split_from cur s sep =
     (if s = [] then [cur]
      else if sep \<noteq> [] \<and> prefix sep s then cur # split_from [] (drop (length sep) s) sep
      else split_from (cur @ [hd s]) (tl s) sep)"
  by pat_completeness auto
termination
  by (relation "measure (\<lambda>(cur, s, sep). length s)") auto

declare split_from.simps [simp del]

definition strings_Split :: "string \<Rightarrow> string \<Rightarrow> string list" where
  "strings_Split s sep = (if sep = [] then map (\<lambda>c. [c]) s else split_from [] s sep)"

text \<open>
  \<open>strings.ReplaceAll(s, old, new)\<close>: every non-overlapping occurrence of \<open>old\<close>, from
  left to right, is replaced by \<open>new\<close>. For an empty \<open>old\<close> Go inserts \<open>new\<close> before every
  UTF-8 sequence and at the end; the model does so before every byte.
\<close>

function replace_from :: "string \<Rightarrow> string \<Rightarrow> string \<Rightarrow> string" where
  "replace_from s old new =
     (if s = [] then []
      else if old \<noteq> [] \<and> prefix old s then new @ replace_from (drop (length old) s) old new
      else hd s # replace_from (tl s) old new)"
  by pat_completeness auto
termination
  by (relation "measure (\<lambda>(s, old, new). length s)") auto

declare replace_from.simps [simp del]

definition strings_ReplaceAll :: "string \<Rightarrow> string \<Rightarrow> string \<Rightarrow> string" where
  "strings_ReplaceAll s old new =
     (if old = [] then concat (map (\<lambda>c. new @ [c]) s) @ new else replace_from s old new)"

text \<open>The verb \<open>%d\<close> of \<open>fmt.Sprintf\<close> on a non-negative integer.\<close>

fun itoa :: "nat \<Rightarrow> string" where
  "itoa n =
     (if n < 10 then [''0123456789'' ! n]
      else itoa (n div 10) @ [''0123456789'' ! (n mod 10)])"

declare itoa.simps [simp del]

section \<open>The import manager (internal/imports/imports-manager.go)\<close>

text \<open>
  \<open>ImportManager.imports\<close> is a Go map from import path to alias. It is modelled as the
  list of its entries with pairwise distinct keys; \<open>map_of\<close> is the lookup. The order of
  the list is not observable by the program: a \<open>range\<close> over the map visits the entries
  in an order the Go runtime chooses, which is the parameter \<open>order\<close> of \<open>RenderImports\<close>.
\<close>

record ImportManager =
  imports_map :: "(string \<times> string) list"
  aliasCounter :: nat

definition NewImportManager :: ImportManager where
  "NewImportManager = \<lparr>imports_map = [], aliasCounter = 1\<rparr>"

definition AddImport :: "ImportManager \<Rightarrow> string \<Rightarrow> ImportManager" where
  "AddImport im importPath =
     (if strings_Contains importPath ''/'' then
        (let p1 = strings_TrimSpace importPath in
         if p1 = [] then im
         else
           (let p2 = strings_Trim p1 [dquote] in
            if map_of (imports_map im) p2 = None then
              \<lparr>imports_map = imports_map im @ [(p2, ''ref'' @ itoa (aliasCounter im))],
               aliasCounter = aliasCounter im + 1\<rparr>
            else im))
      else im)"

definition GetImportAlias :: "ImportManager \<Rightarrow> string \<Rightarrow> string" where
  "GetImportAlias im importPath =
     (case map_of (imports_map im) (strings_Trim importPath [dquote]) of
        None \<Rightarrow> []
      | Some alias \<Rightarrow> alias)"

text \<open>
  The slice \<open>imports\<close> that the loop of \<open>RenderImports\<close> builds, for the visiting order
  \<open>order\<close> of the map's entries.
\<close>

definition importLines :: "(string \<times> string) list \<Rightarrow> string \<Rightarrow> string list" where
  "importLines order pattern =
     map (\<lambda>(importPath, alias). [tab] @ alias @ '' '' @ [dquote] @ importPath @ [dquote])
       (filter (\<lambda>(importPath, alias). strings_Contains pattern (alias @ ''.'')) order)"

definition RenderImports :: "(string \<times> string) list \<Rightarrow> ImportManager \<Rightarrow> string \<Rightarrow> string" where
  "RenderImports order im pattern =
     (if imports_map im = [] then []
      else ''import ('' @ [newline] @ strings_Join (importLines order pattern) [newline]
             @ [newline] @ '')'')"

text \<open>A visiting order is one the runtime may choose when it lists every entry once.\<close>

definition range_order :: "ImportManager \<Rightarrow> (string \<times> string) list \<Rightarrow> bool" where
  "range_order im order = (mset order = mset (imports_map im))"

section \<open>The package manager (internal/packages/package-manager.go)\<close>

text \<open>
  The fields of \<open>packages.Package\<close> that the program reads. \<open>packages.Load\<close> belongs to
  golang.org/x/tools; it is the parameter \<open>load\<close>, a function of the path that returns
  either the error's text or the list of packages.
\<close>

record Package =
  Pkg_Name :: string
  Pkg_PkgPath :: string
  Pkg_GoFiles :: "string list"
  Pkg_Errors :: "string list"

type_synonym loader = "string \<Rightarrow> string + Package list"

text \<open>
  A Go result \<open>(*packages.Package, error)\<close>: the pointer is \<open>None\<close> when nil, the error
  is \<open>None\<close> when nil.
\<close>

type_synonym pkg_result = "Package option \<times> string option"

definition loadPackage :: "loader \<Rightarrow> string \<Rightarrow> pkg_result" where
  "loadPackage load pkgPath =
     (case load pkgPath of
        Inl err \<Rightarrow> (None, Some (''failed to load package '' @ pkgPath @ '': '' @ err))
      | Inr pkgs \<Rightarrow>
          (case pkgs of
             [] \<Rightarrow> (None, Some (''package not found: '' @ pkgPath))
           | pkg # _ \<Rightarrow>
               if Pkg_Errors pkg \<noteq> []
               then (None, Some (''package errors: ['' @ strings_Join (Pkg_Errors pkg) '' '' @ '']''))
               else (Some pkg, None)))"

text \<open>
  \<open>PackageManager.packageCache\<close>: a map from path to a pointer that may be nil. A key
  that is absent is \<open>None\<close>; a key bound to the nil pointer is \<open>Some None\<close>.
\<close>

type_synonym packageCache = "string \<Rightarrow> Package option option"

definition NewPackageManager :: packageCache where
  "NewPackageManager = (\<lambda>_. None)"

definition GetPackage :: "loader \<Rightarrow> packageCache \<Rightarrow> string \<Rightarrow> pkg_result \<times> packageCache" where
  "GetPackage load pm pkgPath =
     (case pm pkgPath of
        Some pkg \<Rightarrow> ((pkg, None), pm)
      | None \<Rightarrow>
          (let (pkg, err) = loadPackage load pkgPath
           in ((pkg, err), pm(pkgPath := Some pkg))))"

section \<open>Syntax trees and the collaborators outside the repository\<close>

text \<open>
  The nodes of \<open>go/ast\<close> that the generator inspects. An expression of any other kind
  (an interface type, a channel type, an instantiated generic type, ...) is \<open>OtherExpr\<close>.
  \<open>FuncType\<close> carries the fields of \<open>Params\<close> and of \<open>Results\<close> (a nil list is the
  empty list: the program only iterates over them). A field's tag is the text of its
  literal, with its quotes, or \<open>None\<close> without a tag.

  \<open>go/parser\<close> produces an \<open>Ident\<close> for a plain name and a \<open>SelectorExpr\<close> for a
  qualified name \<open>pkg.Name\<close>.
\<close>

datatype Expr =
    Ident string
  | StarExpr Expr
  | SelectorExpr Expr string
  | ArrayType Expr
  | MapType Expr Expr
  | StructType "Field list"
  | FuncType "Field list" "Field list"
  | OtherExpr string
and Field =
    Field (Names: "string list") (Type: Expr) (Tag: "string option")

record TypeSpec =
  TS_Name :: string
  TS_Type :: Expr

record ImportSpec =
  Imp_Name :: "string option"
  Imp_Path :: string

text \<open>
  A parsed file: its import declarations and its \<open>TypeSpec\<close> nodes in the order in which
  \<open>ast.Inspect\<close> reaches them (source order; they include the type declarations local to
  function bodies). A \<open>TypeSpec\<close> does not contain another one, so the callback of
  \<open>ast.Inspect\<close>, which does nothing on a node of another kind, sees exactly this list
  whatever it returns.
\<close>

record File =
  File_Imports :: "ImportSpec list"
  File_TypeSpecs :: "TypeSpec list"

text \<open>
  What the generator calls outside the repository, as functions of their inputs:
  \<open>packages.Load\<close>, \<open>parser.ParseFile\<close> (\<open>None\<close> is a parse error), \<open>printer.Fprint\<close> on
  a type expression, parsing and executing a template of \<open>html/template\<close> on a map of
  strings (\<open>None\<close> when either step fails), and \<open>reflect.StructTag.Get\<close>.
\<close>

record env =
  Load :: loader
  ParseFile :: "string \<Rightarrow> File option"
  Fprint :: "Expr \<Rightarrow> string"
  Execute :: "string \<Rightarrow> (string \<Rightarrow> string option) \<Rightarrow> string option"
  StructTag_Get :: "string \<Rightarrow> string \<Rightarrow> string"

text \<open>
  A Go \<open>error\<close> that a function returns is \<open>Err\<close> with its message; a panic (an explicit
  \<open>panic\<close> or a nil-pointer dereference) is \<open>Panic\<close>. Both end the run.
\<close>

datatype failure = Err string | Panic string

definition nil_dereference :: failure where
  "nil_dereference = Panic ''runtime error: invalid memory address or nil pointer dereference''"

section \<open>The configuration (internal/generator/generator.go)\<close>

record TypeWithImportsTemplate =
  TypeTemplate :: string
  Imports :: "string list"

record ConversionTemplate =
  Tmpl :: string
  Error :: bool

record Conversion =
  SourceType :: string
  DestType :: string
  Conversion :: ConversionTemplate
  ReverseConversion :: ConversionTemplate
  Conv_Imports :: "string list"

record CustomFieldMapping =
  SourceField :: string
  DestField :: string
  SourceTag :: string
  DestTag :: string
  CFM_Tag :: string

text \<open>
  \<open>AdditionalArg\<close>, \<open>StructDefinition\<close> and \<open>FieldDefinition\<close> embed a
  \<open>TypeWithImportsTemplate\<close>; the embedded struct is the field \<open>Arg_Type\<close>, the type of
  \<open>From\<close> and \<open>To\<close>, and the field \<open>Field_Type\<close>.
\<close>

record AdditionalArg =
  Arg_Name :: string
  Arg_DestField :: string
  Arg_Type :: TypeWithImportsTemplate

record Mapping =
  From :: TypeWithImportsTemplate
  To :: TypeWithImportsTemplate
  FuncName :: string
  FuncAdditionalArgs :: "AdditionalArg list"
  CustomFieldMappings :: "CustomFieldMapping list"
  CustomConversions :: "Conversion list"
  Mapping_Tag :: string

record Config =
  OutPackageName :: string
  OutFileName :: string
  OutFilePath :: string
  Mappings :: "Mapping list"
  Debug :: bool

record FieldDefinition =
  Name :: string
  Field_Tag :: string
  Field_Type :: TypeWithImportsTemplate

record ImportInfo =
  Alias :: "string option"
  PkgName :: string
  Path :: string

definition NewTypeWithImportsTemplate :: "string \<Rightarrow> string list \<Rightarrow> TypeWithImportsTemplate" where
  "NewTypeWithImportsTemplate typeStr imps = \<lparr>TypeTemplate = typeStr, Imports = imps\<rparr>"

definition GetSourceTypeWithImportsTemplate :: "Conversion \<Rightarrow> TypeWithImportsTemplate" where
  "GetSourceTypeWithImportsTemplate c = NewTypeWithImportsTemplate (SourceType c) (Conv_Imports c)"

definition GetDestTypeWithImportsTemplate :: "Conversion \<Rightarrow> TypeWithImportsTemplate" where
  "GetDestTypeWithImportsTemplate c = NewTypeWithImportsTemplate (DestType c) (Conv_Imports c)"

text \<open>
  The loop \<open>data[fmt.Sprintf("Import%d", idx)] = importManager.GetImportAlias(imp)\<close>,
  from index \<open>idx\<close> on.
\<close>

fun importData ::
  "ImportManager \<Rightarrow> nat \<Rightarrow> string list \<Rightarrow> (string \<Rightarrow> string option) \<Rightarrow> (string \<Rightarrow> string option)"
where
  "importData im idx [] data = data"
| "importData im idx (imp # imps) data =
     importData im (idx + 1) imps (data(''Import'' @ itoa idx \<mapsto> GetImportAlias im imp))"

definition ExecuteTemplate :: "env \<Rightarrow> ImportManager \<Rightarrow> TypeWithImportsTemplate \<Rightarrow> failure + string" where
  "ExecuteTemplate e im t =
     (case Execute e (TypeTemplate t) (importData im 0 (Imports t) Map.empty) of
        None \<Rightarrow> Inl (Panic ''failed to parse or execute type template'')
      | Some text \<Rightarrow> Inr text)"

definition executeTemplate ::
  "env \<Rightarrow> Conversion \<Rightarrow> string \<Rightarrow> bool \<Rightarrow> string \<Rightarrow> string \<Rightarrow> string \<Rightarrow> ImportManager
     \<Rightarrow> failure + string \<times> bool"
where
  "executeTemplate e c tmplStr hasError sourceVar destVar errorVar im =
     (let data = (importData im 0 (Conv_Imports c) Map.empty)
                   (''Source'' \<mapsto> sourceVar, ''Dest'' \<mapsto> destVar, ''Error'' \<mapsto> errorVar)
      in case Execute e tmplStr data of
           None \<Rightarrow> Inl (Panic ''failed to parse or execute conversion template'')
         | Some text \<Rightarrow> Inr (text, hasError))"

definition ExecuteConversionTemplate ::
  "env \<Rightarrow> Conversion \<Rightarrow> string \<Rightarrow> string \<Rightarrow> string \<Rightarrow> ImportManager \<Rightarrow> failure + string \<times> bool"
where
  "ExecuteConversionTemplate e c sourceVar destVar errorVar im =
     executeTemplate e c (Tmpl (Conversion c)) (Error (Conversion c)) sourceVar destVar errorVar im"

definition ExecuteReverseConversionTemplate ::
  "env \<Rightarrow> Conversion \<Rightarrow> string \<Rightarrow> string \<Rightarrow> string \<Rightarrow> ImportManager \<Rightarrow> failure + string \<times> bool"
where
  "ExecuteReverseConversionTemplate e c sourceVar destVar errorVar im =
     (if Tmpl (ReverseConversion c) = [] then Inr (destVar @ '' = '' @ sourceVar, False)
      else executeTemplate e c (Tmpl (ReverseConversion c)) (Error (ReverseConversion c))
             sourceVar destVar errorVar im)"

definition RenderParameter :: "env \<Rightarrow> AdditionalArg \<Rightarrow> ImportManager \<Rightarrow> failure + string" where
  "RenderParameter e a im =
     (case ExecuteTemplate e im (Arg_Type a) of
        Inl f \<Rightarrow> Inl f
      | Inr renderedType \<Rightarrow> Inr (Arg_Name a @ '' '' @ renderedType))"

text \<open>The loop of \<open>GetUnaliasedType\<close>, for the indices \<open>i\<close>, \<open>i + 1\<close>, ... below \<open>n\<close>.\<close>

fun unalias_from :: "nat \<Rightarrow> nat \<Rightarrow> string \<Rightarrow> string" where
  "unalias_from i 0 result = result"
| "unalias_from i (Suc k) result =
     unalias_from (i + 1) k (strings_ReplaceAll result (''{{ .Import'' @ itoa i @ '' }}.'') [])"

definition GetUnaliasedType :: "TypeWithImportsTemplate \<Rightarrow> string" where
  "GetUnaliasedType t = unalias_from 0 (length (Imports t)) (TypeTemplate t)"

definition Equals ::
  "env \<Rightarrow> ImportManager \<Rightarrow> TypeWithImportsTemplate \<Rightarrow> TypeWithImportsTemplate \<Rightarrow> failure + bool"
where
  "Equals e im t other =
     (case ExecuteTemplate e im t of
        Inl f \<Rightarrow> Inl f
      | Inr renderedT \<Rightarrow>
          (case ExecuteTemplate e im other of
             Inl f \<Rightarrow> Inl f
           | Inr renderedOther \<Rightarrow> Inr (renderedT = renderedOther)))"

text \<open>The loop of \<open>NewFieldDefinition\<close> over \<open>importInfos\<close>, from index \<open>idx\<close> on.\<close>

fun template_from :: "nat \<Rightarrow> ImportInfo list \<Rightarrow> string \<Rightarrow> string" where
  "template_from idx [] typeTemplate = typeTemplate"
| "template_from idx (importInfo # rest) typeTemplate =
     (let old = (case Alias importInfo of None \<Rightarrow> PkgName importInfo | Some a \<Rightarrow> a)
      in template_from (idx + 1) rest
           (strings_ReplaceAll typeTemplate old (''{{ .Import'' @ itoa idx @ '' }}'')))"

definition NewFieldDefinition :: "string \<Rightarrow> string \<Rightarrow> string \<Rightarrow> ImportInfo list \<Rightarrow> FieldDefinition" where
  "NewFieldDefinition name typeStr tag importInfos =
     \<lparr>Name = name, Field_Tag = tag,
      Field_Type = NewTypeWithImportsTemplate (template_from 0 importInfos typeStr)
                     (map Path importInfos)\<rparr>"

section \<open>Field matching\<close>

definition tagValue :: "env \<Rightarrow> string \<Rightarrow> string \<Rightarrow> string" where
  "tagValue e tag key =
     (if tag = [] then []
      else
        (let v = StructTag_Get e tag key in
         if v = [] then []
         else
           (let parts = strings_Split v '','' in
            if hd parts = ''-'' then [] else hd parts)))"

fun findAdditionalArg :: "AdditionalArg list \<Rightarrow> FieldDefinition \<Rightarrow> AdditionalArg option" where
  "findAdditionalArg [] dest = None"
| "findAdditionalArg (arg # args) dest =
     (if Arg_DestField arg = Name dest then Some arg else findAdditionalArg args dest)"

text \<open>
  The inner loop of a tag-based override: the first source field whose value under
  \<open>customTag\<close> is the override's \<open>SourceTag\<close>.
\<close>

fun firstByTag :: "env \<Rightarrow> string \<Rightarrow> string \<Rightarrow> FieldDefinition list \<Rightarrow> FieldDefinition option" where
  "firstByTag e customTag sourceTag [] = None"
| "firstByTag e customTag sourceTag (field # rest) =
     (if tagValue e (Field_Tag field) customTag = sourceTag then Some field
      else firstByTag e customTag sourceTag rest)"

text \<open>
  The body of the loop of \<open>findSourceForDest\<close> for one override: \<open>Some\<close> field when one
  of its two \<open>return\<close> statements is reached, \<open>None\<close> when the loop goes on.
\<close>

definition overrideTarget ::
  "env \<Rightarrow> FieldDefinition \<Rightarrow> (string \<Rightarrow> FieldDefinition option) \<Rightarrow> string
     \<Rightarrow> FieldDefinition list \<Rightarrow> CustomFieldMapping \<Rightarrow> FieldDefinition option"
where
  "overrideTarget e dest byName tag sourceFields cfm =
     (case (if DestField cfm \<noteq> [] \<and> DestField cfm = Name dest \<and> SourceField cfm \<noteq> []
            then byName (SourceField cfm) else None) of
        Some field \<Rightarrow> Some field
      | None \<Rightarrow>
          (if DestTag cfm \<noteq> [] then
             (let customTag = (if CFM_Tag cfm = [] then tag else CFM_Tag cfm);
                  tagVal = tagValue e (Field_Tag dest) customTag
              in if tagVal \<noteq> [] \<and> tagVal = DestTag cfm \<and> SourceTag cfm \<noteq> []
                 then firstByTag e customTag (SourceTag cfm) sourceFields
                 else None)
           else None))"

fun findSourceForDest ::
  "env \<Rightarrow> FieldDefinition \<Rightarrow> (string \<Rightarrow> FieldDefinition option)
     \<Rightarrow> (string \<Rightarrow> FieldDefinition option) \<Rightarrow> CustomFieldMapping list \<Rightarrow> string
     \<Rightarrow> FieldDefinition list \<Rightarrow> FieldDefinition option"
where
  "findSourceForDest e dest byName byTag [] tag sourceFields =
     (case byName (Name dest) of
        Some field \<Rightarrow> Some field
      | None \<Rightarrow>
          (let tagVal = tagValue e (Field_Tag dest) tag
           in if tagVal \<noteq> [] then byTag tagVal else None))"
| "findSourceForDest e dest byName byTag (cfm # cfms) tag sourceFields =
     (case overrideTarget e dest byName tag sourceFields cfm of
        Some field \<Rightarrow> Some field
      | None \<Rightarrow> findSourceForDest e dest byName byTag cfms tag sourceFields)"

text \<open>
  The lookup maps that \<open>generateFunction\<close> fills from the source fields, in declaration
  order, before it matches: a later field overwrites an earlier one under the same key.
\<close>

fun fillByName ::
  "FieldDefinition list \<Rightarrow> (string \<Rightarrow> FieldDefinition option) \<Rightarrow> (string \<Rightarrow> FieldDefinition option)"
where
  "fillByName [] byName = byName"
| "fillByName (sourceField # rest) byName = fillByName rest (byName(Name sourceField \<mapsto> sourceField))"

fun fillByTag ::
  "env \<Rightarrow> string \<Rightarrow> FieldDefinition list \<Rightarrow> (string \<Rightarrow> FieldDefinition option)
     \<Rightarrow> (string \<Rightarrow> FieldDefinition option)"
where
  "fillByTag e tag [] byTag = byTag"
| "fillByTag e tag (sourceField # rest) byTag =
     (let tv = tagValue e (Field_Tag sourceField) tag
      in fillByTag e tag rest (if tv \<noteq> [] then byTag(tv \<mapsto> sourceField) else byTag))"

section \<open>Conversion resolution\<close>

text \<open>
  The two closures of \<open>findConversion\<close>. Go's \<open>&&\<close> evaluates its right operand only when
  the left one is true, so a template that cannot be rendered panics only when it is
  reached.
\<close>

definition equalsFunc ::
  "env \<Rightarrow> ImportManager \<Rightarrow> Conversion \<Rightarrow> TypeWithImportsTemplate \<Rightarrow> TypeWithImportsTemplate
     \<Rightarrow> failure + bool"
where
  "equalsFunc e im conv sourceTypeTemplate destTypeTemplate =
     (case Equals e im (GetSourceTypeWithImportsTemplate conv) sourceTypeTemplate of
        Inl f \<Rightarrow> Inl f
      | Inr b \<Rightarrow>
          if b then Equals e im (GetDestTypeWithImportsTemplate conv) destTypeTemplate
          else Inr False)"

definition reverseEqualsFunc ::
  "env \<Rightarrow> ImportManager \<Rightarrow> Conversion \<Rightarrow> TypeWithImportsTemplate \<Rightarrow> TypeWithImportsTemplate
     \<Rightarrow> failure + bool"
where
  "reverseEqualsFunc e im conv sourceTypeTemplate destTypeTemplate =
     (case Equals e im (GetDestTypeWithImportsTemplate conv) sourceTypeTemplate of
        Inl f \<Rightarrow> Inl f
      | Inr b \<Rightarrow>
          if b then
            (case Equals e im (GetSourceTypeWithImportsTemplate conv) destTypeTemplate of
               Inl f \<Rightarrow> Inl f
             | Inr b' \<Rightarrow> Inr (b' \<and> Tmpl (ReverseConversion conv) \<noteq> []))
          else Inr False)"

text \<open>
  One of the two loops of \<open>findConversion\<close>: \<open>Some (conv, isReverse)\<close> when it returns,
  \<open>None\<close> when it ends without a match.
\<close>

fun findIn ::
  "env \<Rightarrow> ImportManager \<Rightarrow> TypeWithImportsTemplate \<Rightarrow> TypeWithImportsTemplate \<Rightarrow> Conversion list
     \<Rightarrow> failure + (Conversion \<times> bool) option"
where
  "findIn e im sourceTypeTemplate destTypeTemplate [] = Inr None"
| "findIn e im sourceTypeTemplate destTypeTemplate (conv # convs) =
     (case equalsFunc e im conv sourceTypeTemplate destTypeTemplate of
        Inl f \<Rightarrow> Inl f
      | Inr fwd \<Rightarrow>
          if fwd then Inr (Some (conv, False))
          else
            (case reverseEqualsFunc e im conv sourceTypeTemplate destTypeTemplate of
               Inl f \<Rightarrow> Inl f
             | Inr bwd \<Rightarrow>
                 if bwd then Inr (Some (conv, True))
                 else findIn e im sourceTypeTemplate destTypeTemplate convs))"

definition findConversion ::
  "env \<Rightarrow> ImportManager \<Rightarrow> TypeWithImportsTemplate \<Rightarrow> TypeWithImportsTemplate \<Rightarrow> Conversion list
     \<Rightarrow> Conversion list \<Rightarrow> failure + (Conversion \<times> bool) option"
where
  "findConversion e im sourceTypeTemplate destTypeTemplate conversions customConversions =
     (case findIn e im sourceTypeTemplate destTypeTemplate customConversions of
        Inl f \<Rightarrow> Inl f
      | Inr (Some found) \<Rightarrow> Inr (Some found)
      | Inr None \<Rightarrow> findIn e im sourceTypeTemplate destTypeTemplate conversions)"

section \<open>Assembling one function\<close>

definition assignmentWithConversion ::
  "env \<Rightarrow> ImportManager \<Rightarrow> string \<Rightarrow> FieldDefinition \<Rightarrow> Conversion option \<Rightarrow> bool
     \<Rightarrow> failure + string \<times> bool"
where
  "assignmentWithConversion e im sourceExpr dest conversion isReverse =
     (let destExpr = ''dst.'' @ Name dest; errorExpr = ''err'' in
      case conversion of
        Some conv \<Rightarrow>
          if isReverse then ExecuteReverseConversionTemplate e conv sourceExpr destExpr errorExpr im
          else ExecuteConversionTemplate e conv sourceExpr destExpr errorExpr im
      | None \<Rightarrow> Inr (destExpr @ '' = '' @ sourceExpr, False))"

definition unmappedComment :: "FieldDefinition \<Rightarrow> string" where
  "unmappedComment dest =
     ''// no matching source found for field: '' @ Name dest
       @ '', consider adding an additional arg or aligning the fields''"

definition assignmentLine ::
  "env \<Rightarrow> ImportManager \<Rightarrow> FieldDefinition option \<Rightarrow> FieldDefinition \<Rightarrow> Conversion list
     \<Rightarrow> Conversion list \<Rightarrow> AdditionalArg option \<Rightarrow> failure + string \<times> bool"
where
  "assignmentLine e im source dest conversions customConversions additionalArg =
     (case additionalArg of
        Some arg \<Rightarrow>
          (case findConversion e im (Arg_Type arg) (Field_Type dest) conversions customConversions of
             Inl f \<Rightarrow> Inl f
           | Inr None \<Rightarrow> assignmentWithConversion e im (Arg_Name arg) dest None False
           | Inr (Some (conversion, isReverse)) \<Rightarrow>
               assignmentWithConversion e im (Arg_Name arg) dest (Some conversion) isReverse)
      | None \<Rightarrow>
          (case source of
             Some src \<Rightarrow>
               (case findConversion e im (Field_Type src) (Field_Type dest) conversions customConversions of
                  Inl f \<Rightarrow> Inl f
                | Inr None \<Rightarrow> assignmentWithConversion e im (''src.'' @ Name src) dest None False
                | Inr (Some (conversion, isReverse)) \<Rightarrow>
                    assignmentWithConversion e im (''src.'' @ Name src) dest (Some conversion) isReverse)
           | None \<Rightarrow> Inr (unmappedComment dest, False)))"

text \<open>
  The loop of \<open>generateFunction\<close> over the destination fields: it returns the lines
  \<open>assigns\<close> and the flag \<open>hasError\<close>, starting from the values given.
\<close>

fun assignLoop ::
  "env \<Rightarrow> ImportManager \<Rightarrow> Conversion list \<Rightarrow> Mapping \<Rightarrow> (string \<Rightarrow> FieldDefinition option)
     \<Rightarrow> (string \<Rightarrow> FieldDefinition option) \<Rightarrow> string \<Rightarrow> FieldDefinition list
     \<Rightarrow> FieldDefinition list \<Rightarrow> string list \<Rightarrow> bool \<Rightarrow> failure + string list \<times> bool"
where
  "assignLoop e im conversions mapping byName byTag tag sourceFields [] assigns hasError =
     Inr (assigns, hasError)"
| "assignLoop e im conversions mapping byName byTag tag sourceFields (destField # rest) assigns hasError =
     (let sourceField = findSourceForDest e destField byName byTag (CustomFieldMappings mapping)
                          tag sourceFields;
          additionalArg = findAdditionalArg (FuncAdditionalArgs mapping) destField
      in case assignmentLine e im sourceField destField conversions (CustomConversions mapping)
                additionalArg of
           Inl f \<Rightarrow> Inl f
         | Inr (assignment, returnsError) \<Rightarrow>
             assignLoop e im conversions mapping byName byTag tag sourceFields rest
               (if assignment \<noteq> [] then assigns @ [assignment] else assigns)
               (if returnsError then True else hasError))"

definition funcName :: "TypeWithImportsTemplate \<Rightarrow> TypeWithImportsTemplate \<Rightarrow> string" where
  "funcName fromType toType = ''Map'' @ GetUnaliasedType fromType @ ''To'' @ GetUnaliasedType toType"

text \<open>The loop that renders the additional parameters, after \<open>funcArgs\<close>.\<close>

fun renderArgs :: "env \<Rightarrow> ImportManager \<Rightarrow> AdditionalArg list \<Rightarrow> string list \<Rightarrow> failure + string list" where
  "renderArgs e im [] funcArgs = Inr funcArgs"
| "renderArgs e im (arg # args) funcArgs =
     (case RenderParameter e arg im of
        Inl f \<Rightarrow> Inl f
      | Inr p \<Rightarrow> renderArgs e im args (funcArgs @ [p]))"

definition arrow :: string where
  "arrow = [CHR 0xE2, CHR 0x86, CHR 0x92]"

text \<open>
  The generator. Its fields \<open>conversions\<close> and \<open>config\<close> are never assigned after
  \<open>NewGenerator\<close>.
\<close>

record Generator =
  importManager :: ImportManager
  packageManager :: packageCache
  typeToFieldsMap :: "string \<Rightarrow> FieldDefinition list option"
  conversions :: "Conversion list"
  config :: Config

definition NewGenerator :: "Config \<Rightarrow> Conversion list \<Rightarrow> Generator" where
  "NewGenerator cfg convs =
     \<lparr>importManager = NewImportManager, packageManager = NewPackageManager,
      typeToFieldsMap = Map.empty, conversions = convs, config = cfg\<rparr>"

definition AddFields :: "Generator \<Rightarrow> string \<Rightarrow> FieldDefinition list \<Rightarrow> Generator" where
  "AddFields g typeName fieldDefs = g\<lparr>typeToFieldsMap := (typeToFieldsMap g)(typeName \<mapsto> fieldDefs)\<rparr>"

definition GetFields :: "Generator \<Rightarrow> string \<Rightarrow> FieldDefinition list option" where
  "GetFields g typeName = typeToFieldsMap g typeName"

text \<open>
  \<open>generateFunction\<close>. With \<open>Debug\<close> set the program also logs the two field lists; the
  log is not part of the result (\<open>json.MarshalIndent\<close> cannot fail on these structs of
  strings), and is left out.
\<close>

definition generateFunction :: "env \<Rightarrow> Generator \<Rightarrow> Mapping \<Rightarrow> failure + string" where
  "generateFunction e g mapping =
     (case (GetFields g (TypeTemplate (From mapping)), GetFields g (TypeTemplate (To mapping))) of
        (Some sourceFields, Some destFields) \<Rightarrow>
          (let im = importManager g;
               tag = (if Mapping_Tag mapping = [] then ''json'' else Mapping_Tag mapping);
               byName = fillByName sourceFields Map.empty;
               byTag = fillByTag e tag sourceFields Map.empty
           in case assignLoop e im (conversions g) mapping byName byTag tag sourceFields destFields []
                     False of
                Inl f \<Rightarrow> Inl f
              | Inr (assigns, hasError) \<Rightarrow>
                  (let fromTypeTemplate = From mapping; toTypeTemplate = To mapping;
                       name = (if FuncName mapping = [] then funcName fromTypeTemplate toTypeTemplate
                               else FuncName mapping)
                   in case ExecuteTemplate e im fromTypeTemplate of
                        Inl f \<Rightarrow> Inl f
                      | Inr renderedFrom \<Rightarrow>
                          (case renderArgs e im (FuncAdditionalArgs mapping) [''src '' @ renderedFrom] of
                             Inl f \<Rightarrow> Inl f
                           | Inr funcArgs \<Rightarrow>
                               (case ExecuteTemplate e im toTypeTemplate of
                                  Inl f \<Rightarrow> Inl f
                                | Inr retType \<Rightarrow>
                                    Inr (''// '' @ name @ '' copies '' @ GetUnaliasedType fromTypeTemplate
                                         @ '' '' @ arrow @ '' '' @ GetUnaliasedType toTypeTemplate @ [newline]
                                         @ ''func '' @ name @ ''('' @ strings_Join funcArgs '', ''
                                         @ '') (dst '' @ retType
                                         @ (if hasError then '', err error) {'' else '') {'')
                                         @ [newline] @ ''    ''
                                         @ strings_Join assigns [newline, tab] @ [newline]
                                         @ ''    return'' @ [newline] @ ''}'')))))
      | _ \<Rightarrow>
          Inl (Err (''structs not found: '' @ TypeTemplate (From mapping) @ '', ''
                    @ TypeTemplate (To mapping))))"

section \<open>Imports of a type expression\<close>

text \<open>
  \<open>pkgAliasVisitor\<close>: the closure \<open>visit\<close> with its slice \<open>pkgAliases\<close> as accumulator
  (the set \<open>seen\<close> holds exactly the elements of the slice). The selector's \<open>Sel\<close> is an
  identifier, on which \<open>visit\<close> does nothing.
\<close>

fun visit :: "Expr \<Rightarrow> string list \<Rightarrow> string list"
  and visitFields :: "Field list \<Rightarrow> string list \<Rightarrow> string list"
where
  "visit (SelectorExpr x sel) pkgAliases =
     (case x of
        Ident name \<Rightarrow> if name \<in> set pkgAliases then pkgAliases else pkgAliases @ [name]
      | _ \<Rightarrow> pkgAliases)"
| "visit (StarExpr x) pkgAliases = visit x pkgAliases"
| "visit (ArrayType elt) pkgAliases = visit elt pkgAliases"
| "visit (MapType k v) pkgAliases = visit v (visit k pkgAliases)"
| "visit (StructType fs) pkgAliases = visitFields fs pkgAliases"
| "visit (FuncType params results) pkgAliases = visitFields results (visitFields params pkgAliases)"
| "visit (Ident name) pkgAliases = pkgAliases"
| "visit (OtherExpr kind) pkgAliases = pkgAliases"
| "visitFields [] pkgAliases = pkgAliases"
| "visitFields (Field names t tg # fs) pkgAliases = visitFields fs (visit t pkgAliases)"

definition pkgAliasVisitor :: "Expr \<Rightarrow> string list" where
  "pkgAliasVisitor expression = visit expression []"

text \<open>
  The functions below read packages through the package manager, whose cache they
  update: each takes the cache and returns the new one beside its result.
\<close>

fun importSpecLoop ::
  "env \<Rightarrow> packageCache \<Rightarrow> ImportSpec list \<Rightarrow> string \<Rightarrow> (failure + ImportInfo option) \<times> packageCache"
where
  "importSpecLoop e pm [] pkgAlias = (Inr None, pm)"
| "importSpecLoop e pm (imp # imps) pkgAlias =
     (let path = strings_Trim (Imp_Path imp) [dquote] in
      case GetPackage (Load e) pm path of
        ((pkg, Some err), pm') \<Rightarrow> (Inl (Err err), pm')
      | ((None, None), pm') \<Rightarrow> (Inl nil_dereference, pm')
      | ((Some p, None), pm') \<Rightarrow>
          if Imp_Name imp = Some pkgAlias
          then (Inr (Some \<lparr>Alias = Some pkgAlias, PkgName = Pkg_Name p, Path = Pkg_PkgPath p\<rparr>), pm')
          else if Pkg_Name p = pkgAlias
          then (Inr (Some \<lparr>Alias = None, PkgName = Pkg_Name p, Path = Pkg_PkgPath p\<rparr>), pm')
          else importSpecLoop e pm' imps pkgAlias)"

definition findImportSpecForAlias ::
  "env \<Rightarrow> packageCache \<Rightarrow> File \<Rightarrow> string \<Rightarrow> (failure + ImportInfo option) \<times> packageCache"
where
  "findImportSpecForAlias e pm f pkgAlias = importSpecLoop e pm (File_Imports f) pkgAlias"

text \<open>
  The loop over \<open>pkg.GoFiles\<close> that \<open>findImportSpecsForExpression\<close> and
  \<open>resolveTypeForEmbeddedField\<close> both run: a file that does not parse is skipped, an
  error is returned, the first import found ends the loop; \<open>Inr None\<close> when no file has
  the import.
\<close>

fun aliasInFiles ::
  "env \<Rightarrow> packageCache \<Rightarrow> string list \<Rightarrow> string \<Rightarrow> (failure + ImportInfo option) \<times> packageCache"
where
  "aliasInFiles e pm [] pkgAlias = (Inr None, pm)"
| "aliasInFiles e pm (gofile # rest) pkgAlias =
     (case ParseFile e gofile of
        None \<Rightarrow> aliasInFiles e pm rest pkgAlias
      | Some file \<Rightarrow>
          (case findImportSpecForAlias e pm file pkgAlias of
             (Inl f, pm') \<Rightarrow> (Inl f, pm')
           | (Inr None, pm') \<Rightarrow> aliasInFiles e pm' rest pkgAlias
           | (Inr (Some importInfo), pm') \<Rightarrow> (Inr (Some importInfo), pm')))"

fun aliasesLoop ::
  "env \<Rightarrow> packageCache \<Rightarrow> Package \<Rightarrow> string \<Rightarrow> string list \<Rightarrow> ImportInfo list
     \<Rightarrow> (failure + ImportInfo list) \<times> packageCache"
where
  "aliasesLoop e pm pkg pkgPath [] result = (Inr result, pm)"
| "aliasesLoop e pm pkg pkgPath (pkgAlias # rest) result =
     (case aliasInFiles e pm (Pkg_GoFiles pkg) pkgAlias of
        (Inl f, pm') \<Rightarrow> (Inl f, pm')
      | (Inr None, pm') \<Rightarrow>
          (Inl (Err (''import not found for package '' @ pkgAlias @ '' in '' @ pkgPath)), pm')
      | (Inr (Some importInfo), pm') \<Rightarrow> aliasesLoop e pm' pkg pkgPath rest (result @ [importInfo]))"

definition findImportSpecsForExpression ::
  "env \<Rightarrow> packageCache \<Rightarrow> Expr \<Rightarrow> string \<Rightarrow> (failure + ImportInfo list) \<times> packageCache"
where
  "findImportSpecsForExpression e pm expression pkgPath =
     (let pkgAliases = pkgAliasVisitor expression in
      if pkgAliases = [] then (Inr [], pm)
      else
        (case GetPackage (Load e) pm pkgPath of
           ((pkg, Some err), pm') \<Rightarrow>
             (Inl (Err (''failed to load package '' @ pkgPath @ '': '' @ err)), pm')
         | ((None, None), pm') \<Rightarrow> (Inl nil_dereference, pm')
         | ((Some p, None), pm') \<Rightarrow> aliasesLoop e pm' p pkgPath pkgAliases []))"

fun resolveTypeForEmbeddedField ::
  "env \<Rightarrow> packageCache \<Rightarrow> Expr \<Rightarrow> string \<Rightarrow> (failure + string \<times> string) \<times> packageCache"
where
  "resolveTypeForEmbeddedField e pm (StarExpr x) currentPkgPath =
     resolveTypeForEmbeddedField e pm x currentPkgPath"
| "resolveTypeForEmbeddedField e pm (Ident name) currentPkgPath = (Inr (currentPkgPath, name), pm)"
| "resolveTypeForEmbeddedField e pm (SelectorExpr x sel) currentPkgPath =
     (case x of
        Ident name \<Rightarrow>
          (case GetPackage (Load e) pm currentPkgPath of
             ((pkg, Some err), pm') \<Rightarrow>
               (Inl (Err (''failed to load package '' @ currentPkgPath @ '': '' @ err)), pm')
           | ((None, None), pm') \<Rightarrow> (Inl nil_dereference, pm')
           | ((Some p, None), pm') \<Rightarrow>
               (case aliasInFiles e pm' (Pkg_GoFiles p) name of
                  (Inl f, pm'') \<Rightarrow> (Inl f, pm'')
                | (Inr None, pm'') \<Rightarrow>
                    (Inl (Err (''import not found for package '' @ name @ '' in '' @ currentPkgPath)), pm'')
                | (Inr (Some importInfo), pm'') \<Rightarrow> (Inr (Path importInfo, sel), pm'')))
      | _ \<Rightarrow> (Inl (Err ''unsupported selector expression for embedded field''), pm))"
| "resolveTypeForEmbeddedField e pm (ArrayType elt) currentPkgPath =
     (Inl (Err ''unsupported embedded field type''), pm)"
| "resolveTypeForEmbeddedField e pm (MapType k v) currentPkgPath =
     (Inl (Err ''unsupported embedded field type''), pm)"
| "resolveTypeForEmbeddedField e pm (StructType fs) currentPkgPath =
     (Inl (Err ''unsupported embedded field type''), pm)"
| "resolveTypeForEmbeddedField e pm (FuncType params results) currentPkgPath =
     (Inl (Err ''unsupported embedded field type''), pm)"
| "resolveTypeForEmbeddedField e pm (OtherExpr kind) currentPkgPath =
     (Inl (Err ''unsupported embedded field type''), pm)"

section \<open>Type resolution\<close>

text \<open>
  \<open>findStructDefinitionRecursive\<close> calls itself from the callback it hands to
  \<open>ast.Inspect\<close>, and \<open>extractFieldsFromPackage\<close> calls itself through
  \<open>expandEmbeddedFields\<close>. Neither recursion is bounded by the size of an argument, so
  both functions take a bound \<open>fuel\<close> on the depth of their calls and return \<open>None\<close> when
  the bound is reached: a call that returns \<open>None\<close> for every bound is a call that does not
  return. The body of each function is a definition of its own, \<open>_body\<close>, that takes the
  function to call for its recursive calls.

  The state of a resolution is the package cache and the map \<open>visited\<close>, which all the
  calls of one resolution share.
\<close>

type_synonym resolution = "packageCache \<times> string set"

type_synonym 'a partial = "((failure + 'a) \<times> resolution) option"

text \<open>
  The variables \<open>foundStruct\<close> (the field list of the struct found, \<open>None\<close> for the nil
  pointer), \<open>foundPkgPath\<close> and \<open>foundErr\<close> that the callback assigns.
\<close>

type_synonym found = "Field list option \<times> string \<times> string option"

text \<open>
  What the callback does with the result of a recursive call: an error is stored in
  \<open>foundErr\<close>, a struct in \<open>foundStruct\<close> and \<open>foundPkgPath\<close>; a panic is not caught.
\<close>

definition afterRecursion :: "found \<Rightarrow> (Field list \<times> string) partial \<Rightarrow> found partial" where
  "afterRecursion fnd r =
     (case r of
        None \<Rightarrow> None
      | Some (Inl (Panic m), st) \<Rightarrow> Some (Inl (Panic m), st)
      | Some (Inl (Err m), st) \<Rightarrow> Some (Inr (fst fnd, fst (snd fnd), Some m), st)
      | Some (Inr (recursiveStruct, recursivePkgPath), st) \<Rightarrow>
          Some (Inr (Some recursiveStruct, recursivePkgPath, snd (snd fnd)), st))"

text \<open>The callback of \<open>ast.Inspect\<close> on one \<open>TypeSpec\<close> node.\<close>

definition inspectTypeSpec ::
  "(resolution \<Rightarrow> string \<Rightarrow> string \<Rightarrow> (Field list \<times> string) partial) \<Rightarrow> env \<Rightarrow> string \<Rightarrow> string
     \<Rightarrow> File \<Rightarrow> TypeSpec \<Rightarrow> found \<Rightarrow> resolution \<Rightarrow> found partial"
where
  "inspectTypeSpec recur e pkgPath typeName f ts fnd st =
     (if TS_Name ts \<noteq> typeName then Some (Inr fnd, st)
      else
        (case TS_Type ts of
           StructType fs \<Rightarrow> Some (Inr (Some fs, pkgPath, snd (snd fnd)), st)
         | Ident aliasTypeName \<Rightarrow>
             if strings_Contains aliasTypeName ''.'' then
               (let parts = strings_Split aliasTypeName ''.'' in
                if length parts \<noteq> 2
                then Some (Inr (fst fnd, fst (snd fnd),
                                Some (''invalid qualified type: '' @ aliasTypeName)), st)
                else
                  (let importPkgPath = parts ! 0; importTypeName = parts ! 1 in
                   case findImportSpecForAlias e (fst st) f importPkgPath of
                     (Inl (Err m), pm') \<Rightarrow>
                       Some (Inr (fst fnd, fst (snd fnd),
                                  Some (''import path not found for '' @ importPkgPath)), (pm', snd st))
                   | (Inl (Panic m), pm') \<Rightarrow> Some (Inl (Panic m), (pm', snd st))
                   | (Inr None, pm') \<Rightarrow> Some (Inl nil_dereference, (pm', snd st))
                   | (Inr (Some importInfo), pm') \<Rightarrow>
                       afterRecursion fnd (recur (pm', snd st) (Path importInfo) importTypeName)))
             else afterRecursion fnd (recur st pkgPath aliasTypeName)
         | _ \<Rightarrow> Some (Inr fnd, st)))"

text \<open>\<open>ast.Inspect\<close> over the \<open>TypeSpec\<close> nodes of a file.\<close>

fun inspectLoop ::
  "(resolution \<Rightarrow> string \<Rightarrow> string \<Rightarrow> (Field list \<times> string) partial) \<Rightarrow> env \<Rightarrow> string \<Rightarrow> string
     \<Rightarrow> File \<Rightarrow> TypeSpec list \<Rightarrow> found \<Rightarrow> resolution \<Rightarrow> found partial"
where
  "inspectLoop recur e pkgPath typeName f [] fnd st = Some (Inr fnd, st)"
| "inspectLoop recur e pkgPath typeName f (ts # rest) fnd st =
     (case inspectTypeSpec recur e pkgPath typeName f ts fnd st of
        None \<Rightarrow> None
      | Some (Inl fl, st') \<Rightarrow> Some (Inl fl, st')
      | Some (Inr fnd', st') \<Rightarrow> inspectLoop recur e pkgPath typeName f rest fnd' st')"

text \<open>The loop over \<open>pkg.GoFiles\<close>.\<close>

fun filesLoop ::
  "(resolution \<Rightarrow> string \<Rightarrow> string \<Rightarrow> (Field list \<times> string) partial) \<Rightarrow> env \<Rightarrow> string \<Rightarrow> string
     \<Rightarrow> string list \<Rightarrow> resolution \<Rightarrow> (Field list \<times> string) partial"
where
  "filesLoop recur e pkgPath typeName [] st =
     Some (Inl (Err (''type '' @ typeName @ '' not found in package '' @ pkgPath)), st)"
| "filesLoop recur e pkgPath typeName (file # rest) st =
     (case ParseFile e file of
        None \<Rightarrow> filesLoop recur e pkgPath typeName rest st
      | Some f \<Rightarrow>
          (case inspectLoop recur e pkgPath typeName f (File_TypeSpecs f) (None, [], None) st of
             None \<Rightarrow> None
           | Some (Inl fl, st') \<Rightarrow> Some (Inl fl, st')
           | Some (Inr (Some foundStruct, foundPkgPath, foundErr), st') \<Rightarrow>
               Some (Inr (foundStruct, foundPkgPath), st')
           | Some (Inr (None, foundPkgPath, Some foundErr), st') \<Rightarrow> Some (Inl (Err foundErr), st')
           | Some (Inr (None, foundPkgPath, None), st') \<Rightarrow>
               filesLoop recur e pkgPath typeName rest st'))"

definition findStructDefinitionRecursive_body ::
  "(resolution \<Rightarrow> string \<Rightarrow> string \<Rightarrow> (Field list \<times> string) partial) \<Rightarrow> env \<Rightarrow> resolution
     \<Rightarrow> string \<Rightarrow> string \<Rightarrow> (Field list \<times> string) partial"
where
  "findStructDefinitionRecursive_body recur e st pkgPath typeName =
     (let key = pkgPath @ ''.'' @ typeName in
      if key \<in> snd st then Some (Inl (Err (''circular type alias detected: '' @ key)), st)
      else
        (let visited = insert key (snd st) in
         case GetPackage (Load e) (fst st) pkgPath of
           ((pkg, Some err), pm') \<Rightarrow>
             Some (Inl (Err (''failed to load package '' @ pkgPath @ '': '' @ err)), (pm', visited))
         | ((None, None), pm') \<Rightarrow> Some (Inl nil_dereference, (pm', visited))
         | ((Some p, None), pm') \<Rightarrow>
             filesLoop recur e pkgPath typeName (Pkg_GoFiles p) (pm', visited)))"

fun findStructDefinitionRecursive ::
  "nat \<Rightarrow> env \<Rightarrow> resolution \<Rightarrow> string \<Rightarrow> string \<Rightarrow> (Field list \<times> string) partial"
where
  "findStructDefinitionRecursive 0 e st pkgPath typeName = None"
| "findStructDefinitionRecursive (Suc fuel) e st pkgPath typeName =
     findStructDefinitionRecursive_body (findStructDefinitionRecursive fuel e) e st pkgPath typeName"

text \<open>
  \<open>findStructDefinition\<close> starts a resolution with an empty map \<open>visited\<close>, which it drops
  at the end.
\<close>

definition findStructDefinition ::
  "nat \<Rightarrow> env \<Rightarrow> packageCache \<Rightarrow> string \<Rightarrow> string
     \<Rightarrow> ((failure + Field list \<times> string) \<times> packageCache) option"
where
  "findStructDefinition fuel e pm pkgPath typeName =
     (case findStructDefinitionRecursive fuel e (pm, {}) pkgPath typeName of
        None \<Rightarrow> None
      | Some (r, st) \<Rightarrow> Some (r, fst st))"

section \<open>Field extraction\<close>

type_synonym extraction = "((failure + FieldDefinition list) \<times> packageCache) option"

text \<open>\<open>fmt.Errorf\<close> with \<open>%w\<close> around an error; a panic is not an error value.\<close>

fun wrap :: "string \<Rightarrow> failure \<Rightarrow> failure" where
  "wrap msg (Err m) = Err (msg @ m)"
| "wrap msg (Panic m) = Panic m"

definition expandEmbeddedFields ::
  "(packageCache \<Rightarrow> string \<Rightarrow> string \<Rightarrow> extraction) \<Rightarrow> env \<Rightarrow> packageCache \<Rightarrow> Field \<Rightarrow> string
     \<Rightarrow> extraction"
where
  "expandEmbeddedFields recur e pm fld structPkgPath =
     (case resolveTypeForEmbeddedField e pm (Type fld) structPkgPath of
        (Inl f, pm') \<Rightarrow> Some (Inl f, pm')
      | (Inr (pkgPath, typeName), pm') \<Rightarrow> recur pm' pkgPath typeName)"

text \<open>The loop of \<open>extractFieldsFromPackage\<close> over \<open>structDef.Fields.List\<close>.\<close>

fun fieldsLoop ::
  "(packageCache \<Rightarrow> string \<Rightarrow> string \<Rightarrow> extraction) \<Rightarrow> env \<Rightarrow> string \<Rightarrow> Field list
     \<Rightarrow> FieldDefinition list \<Rightarrow> packageCache \<Rightarrow> extraction"
where
  "fieldsLoop recur e structPkgPath [] fieldDefs pm = Some (Inr fieldDefs, pm)"
| "fieldsLoop recur e structPkgPath (fld # rest) fieldDefs pm =
     (let typ = Fprint e (Type fld) in
      case findImportSpecsForExpression e pm (Type fld) structPkgPath of
        (Inl f, pm') \<Rightarrow> Some (Inl (wrap ''failed to find import specs for expression: '' f), pm')
      | (Inr importInfos, pm') \<Rightarrow>
          (let tag = (case Tag fld of None \<Rightarrow> [] | Some v \<Rightarrow> strings_Trim v [CHR 0x60]) in
           if Names fld = [] then
             (case expandEmbeddedFields recur e pm' fld structPkgPath of
                None \<Rightarrow> None
              | Some (Inl f, pm'') \<Rightarrow> Some (Inl (wrap ''failed to expand embedded field: '' f), pm'')
              | Some (Inr embeddedFields, pm'') \<Rightarrow>
                  fieldsLoop recur e structPkgPath rest (fieldDefs @ embeddedFields) pm'')
           else
             fieldsLoop recur e structPkgPath rest
               (fieldDefs @ map (\<lambda>name. NewFieldDefinition name typ tag importInfos) (Names fld)) pm'))"

definition extractFieldsFromPackage_body ::
  "(packageCache \<Rightarrow> string \<Rightarrow> string \<Rightarrow> extraction) \<Rightarrow> nat \<Rightarrow> env \<Rightarrow> packageCache \<Rightarrow> string
     \<Rightarrow> string \<Rightarrow> extraction"
where
  "extractFieldsFromPackage_body recur fuel e pm pkgPath typeName =
     (case findStructDefinition fuel e pm pkgPath typeName of
        None \<Rightarrow> None
      | Some (Inl f, pm') \<Rightarrow> Some (Inl f, pm')
      | Some (Inr (structDef, structPkgPath), pm') \<Rightarrow>
          fieldsLoop recur e structPkgPath structDef [] pm')"

fun extractFieldsFromPackage :: "nat \<Rightarrow> env \<Rightarrow> packageCache \<Rightarrow> string \<Rightarrow> string \<Rightarrow> extraction" where
  "extractFieldsFromPackage 0 e pm pkgPath typeName = None"
| "extractFieldsFromPackage (Suc fuel) e pm pkgPath typeName =
     extractFieldsFromPackage_body (extractFieldsFromPackage fuel e) (Suc fuel) e pm pkgPath typeName"

section \<open>The generator\<close>

text \<open>A loop \<open>for _, imp := range imps { g.importManager.AddImport(imp) }\<close>.\<close>

definition addImports :: "ImportManager \<Rightarrow> string list \<Rightarrow> ImportManager" where
  "addImports im imps = foldl AddImport im imps"

text \<open>The same loop inside a loop over conversions, additional arguments or fields.\<close>

definition addImportsOf :: "('a \<Rightarrow> string list) \<Rightarrow> ImportManager \<Rightarrow> 'a list \<Rightarrow> ImportManager" where
  "addImportsOf imps im xs = foldl (\<lambda>m x. addImports m (imps x)) im xs"

text \<open>
  The part of the body of the loop of \<open>Generate\<close> that extracts the fields of one side of
  a mapping (\<open>From\<close> with the word \<open>from\<close>, \<open>To\<close> with the word \<open>to\<close>) and registers the
  imports of the fields.
\<close>

definition extractSide ::
  "nat \<Rightarrow> env \<Rightarrow> Generator \<Rightarrow> TypeWithImportsTemplate \<Rightarrow> string
     \<Rightarrow> ((failure + FieldDefinition list) \<times> Generator) option"
where
  "extractSide fuel e g side word =
     (let pkgPath = (if Imports side \<noteq> [] then hd (Imports side) else []) in
      case extractFieldsFromPackage fuel e (packageManager g) pkgPath (GetUnaliasedType side) of
        None \<Rightarrow> None
      | Some (Inl (Panic m), pm') \<Rightarrow> Some (Inl (Panic m), g\<lparr>packageManager := pm'\<rparr>)
      | Some (Inl (Err m), pm') \<Rightarrow>
          (case ExecuteTemplate e (importManager g) side of
             Inl f \<Rightarrow> Some (Inl f, g\<lparr>packageManager := pm'\<rparr>)
           | Inr rendered \<Rightarrow>
               Some (Inl (Err (''failed to extract fields '' @ word @ '' '' @ rendered @ '': '' @ m)),
                     g\<lparr>packageManager := pm'\<rparr>))
      | Some (Inr fieldDefs, pm') \<Rightarrow>
          Some (Inr fieldDefs,
                g\<lparr>packageManager := pm',
                  importManager := addImportsOf (\<lambda>fd. Imports (Field_Type fd)) (importManager g) fieldDefs\<rparr>))"

text \<open>The loop of \<open>Generate\<close> over the mappings; \<open>funcs\<close> is the slice it appends to.\<close>

fun mappingsLoop ::
  "nat \<Rightarrow> env \<Rightarrow> Generator \<Rightarrow> Mapping list \<Rightarrow> string list \<Rightarrow> ((failure + string list) \<times> Generator) option"
where
  "mappingsLoop fuel e g [] funcs = Some (Inr funcs, g)"
| "mappingsLoop fuel e g (mapping # rest) funcs =
     (let im1 = addImportsOf Conv_Imports (importManager g) (CustomConversions mapping);
          im2 = addImportsOf (\<lambda>a. Imports (Arg_Type a)) im1 (FuncAdditionalArgs mapping);
          im3 = addImports im2 (Imports (From mapping));
          im4 = addImports im3 (Imports (To mapping));
          g1 = g\<lparr>importManager := im4\<rparr>
      in case extractSide fuel e g1 (From mapping) ''from'' of
           None \<Rightarrow> None
         | Some (Inl f, g2) \<Rightarrow> Some (Inl f, g2)
         | Some (Inr fromFields, g2) \<Rightarrow>
             (case extractSide fuel e g2 (To mapping) ''to'' of
                None \<Rightarrow> None
              | Some (Inl f, g3) \<Rightarrow> Some (Inl f, g3)
              | Some (Inr toFields, g3) \<Rightarrow>
                  (let g4 = AddFields (AddFields g3 (TypeTemplate (From mapping)) fromFields)
                              (TypeTemplate (To mapping)) toFields
                   in case generateFunction e g4 mapping of
                        Inl f \<Rightarrow> Some (Inl (wrap ''failed to generate function: '' f), g4)
                      | Inr funcCode \<Rightarrow> mappingsLoop fuel e g4 rest (funcs @ [funcCode]))))"

text \<open>
  \<open>Generate\<close>. The parameter \<open>visit_order\<close> gives, for the entries of the import map, the order
  in which the \<open>range\<close> statement of \<open>RenderImports\<close> visits them in this run.
\<close>

definition Generate ::
  "nat \<Rightarrow> ((string \<times> string) list \<Rightarrow> (string \<times> string) list) \<Rightarrow> env \<Rightarrow> Generator
     \<Rightarrow> (failure + string) option"
where
  "Generate fuel visit_order e g =
     (let g0 = g\<lparr>importManager := addImportsOf Conv_Imports (importManager g) (conversions g)\<rparr> in
      case mappingsLoop fuel e g0 (Mappings (config g0)) [] of
        None \<Rightarrow> None
      | Some (Inl f, g') \<Rightarrow> Some (Inl f)
      | Some (Inr funcs, g') \<Rightarrow>
          (let funcCode = strings_Join funcs [newline, newline];
               importCode = RenderImports (visit_order (imports_map (importManager g'))) (importManager g')
                              funcCode
           in Some (Inr (''// Code generated by structmap; DO NOT EDIT.'' @ [newline]
                         @ ''package '' @ OutPackageName (config g') @ [newline] @ [newline]
                         @ importCode @ [newline] @ [newline]
                         @ funcCode @ [newline]))))"

section \<open>An example environment\<close>

text \<open>
  Concrete collaborators, to run the generator on concrete inputs. They agree with the
  Go libraries on the inputs of the examples below, which is all they are used for.
\<close>

subsection \<open>Templates\<close>

text \<open>
  \<open>html/template\<close> on a template made of plain text and of actions \<open>{{ .Key }}\<close>, executed
  on a map of strings: the text is copied, an action is replaced by the value bound to
  the key (the empty string for a key that is not bound), HTML-escaped. An action that is
  not closed, or that is not a dot followed by a key, is an error.
\<close>

definition escapeHTML :: "string \<Rightarrow> string" where
  "escapeHTML s =
     concat (map (\<lambda>c. if c = CHR ''&'' then ''&amp;'' else if c = CHR ''<'' then ''&lt;''
                        else if c = CHR ''>'' then ''&gt;'' else if c = dquote then ''&#34;''
                        else if c = CHR 0x27 then ''&#39;'' else if c = CHR ''+'' then ''&#43;''
                        else [c]) s)"

definition action :: "(string \<Rightarrow> string option) \<Rightarrow> string \<Rightarrow> string option" where
  "action data inner =
     (case strings_Trim inner '' '' of
        [] \<Rightarrow> None
      | c # key \<Rightarrow>
          if c = CHR ''.'' \<and> key \<noteq> [] \<and> list_all (\<lambda>k. k \<noteq> CHR '' '' \<and> k \<noteq> CHR ''.'') key
          then Some (escapeHTML (case data key of None \<Rightarrow> [] | Some v \<Rightarrow> v))
          else None)"

fun render :: "(string \<Rightarrow> string option) \<Rightarrow> string \<Rightarrow> string option"
  and inAction :: "(string \<Rightarrow> string option) \<Rightarrow> string \<Rightarrow> string \<Rightarrow> string option"
where
  "render data [] = Some []"
| "render data (c # s) =
     (case s of
        [] \<Rightarrow> Some [c]
      | d # t \<Rightarrow>
          if c = CHR ''{'' \<and> d = CHR ''{'' then inAction data [] t
          else map_option ((#) c) (render data s))"
| "inAction data inner [] = None"
| "inAction data inner (c # s) =
     (case s of
        [] \<Rightarrow> None
      | d # t \<Rightarrow>
          if c = CHR ''}'' \<and> d = CHR ''}''
          then (case action data inner of
                  None \<Rightarrow> None
                | Some v \<Rightarrow> map_option ((@) v) (render data t))
          else inAction data (inner @ [c]) s)"

subsection \<open>Struct tags\<close>

text \<open>
  \<open>reflect.StructTag.Get\<close> on a tag in the conventional format, a sequence of
  \<open>key:"value"\<close> pairs separated by spaces: the value of the first pair with the key, the
  empty string when there is none or when the tag is malformed before it. Of the escape
  sequences of a quoted value only the single-character ones are decoded; on another
  one the lookup gives the empty string.
\<close>

text \<open>
  The quoted value that starts after an opening quote: its raw text and what follows its
  closing quote.
\<close>

fun scanQuoted :: "string \<Rightarrow> (string \<times> string) option" where
  "scanQuoted [] = None"
| "scanQuoted (c # s) =
     (if c = dquote then Some ([], s)
      else if c = CHR 0x5C then
        (case s of
           [] \<Rightarrow> None
         | d # t \<Rightarrow> map_option (\<lambda>(v, r). (c # d # v, r)) (scanQuoted t))
      else map_option (\<lambda>(v, r). (c # v, r)) (scanQuoted s))"

fun unquote :: "string \<Rightarrow> string option" where
  "unquote [] = Some []"
| "unquote (c # s) =
     (if c = newline then None
      else if c = CHR 0x5C then
        (case s of
           [] \<Rightarrow> None
         | d # t \<Rightarrow>
             (case map_of [(CHR ''a'', CHR 0x07), (CHR ''b'', CHR 0x08), (CHR ''f'', CHR 0x0C),
                           (CHR ''n'', CHR 0x0A), (CHR ''r'', CHR 0x0D), (CHR ''t'', CHR 0x09),
                           (CHR ''v'', CHR 0x0B), (CHR 0x5C, CHR 0x5C), (dquote, dquote)] d of
                None \<Rightarrow> None
              | Some x \<Rightarrow> map_option ((#) x) (unquote t)))
      else map_option ((#) c) (unquote s))"

definition nameChar :: "char \<Rightarrow> bool" where
  "nameChar c = (of_char c > (32::nat) \<and> c \<noteq> CHR '':'' \<and> c \<noteq> dquote \<and> c \<noteq> CHR 0x7F)"

text \<open>
  The loop of the lookup, bounded by the number of bytes left (each round consumes at
  least one).
\<close>

fun lookupTag :: "nat \<Rightarrow> string \<Rightarrow> string \<Rightarrow> string" where
  "lookupTag 0 tag key = []"
| "lookupTag (Suc n) tag key =
     (let t1 = dropWhile (\<lambda>c. c = CHR '' '') tag;
          name = takeWhile nameChar t1;
          t2 = dropWhile nameChar t1
      in if name = [] then []
         else
           (case t2 of
              c # d # t3 \<Rightarrow>
                if c = CHR '':'' \<and> d = dquote then
                  (case scanQuoted t3 of
                     None \<Rightarrow> []
                   | Some (qvalue, t4) \<Rightarrow>
                       if key = name then (case unquote qvalue of None \<Rightarrow> [] | Some v \<Rightarrow> v)
                       else lookupTag n t4 key)
                else []
            | _ \<Rightarrow> []))"

definition tagGet :: "string \<Rightarrow> string \<Rightarrow> string" where
  "tagGet tag key = lookupTag (length tag) tag key"

subsection \<open>Printing a type expression\<close>

text \<open>
  \<open>printer.Fprint\<close> on names, qualified names, pointers, slices and maps. A node of
  another kind is printed as the text \<open>OtherExpr\<close> carries; struct and function types,
  which the examples do not use, are not printed.
\<close>

fun printExpr :: "Expr \<Rightarrow> string" where
  "printExpr (Ident name) = name"
| "printExpr (StarExpr x) = ''*'' @ printExpr x"
| "printExpr (SelectorExpr x sel) = printExpr x @ ''.'' @ sel"
| "printExpr (ArrayType elt) = ''[]'' @ printExpr elt"
| "printExpr (MapType k v) = ''map['' @ printExpr k @ '']'' @ printExpr v"
| "printExpr (OtherExpr text) = text"
| "printExpr (StructType fs) = []"
| "printExpr (FuncType params results) = []"

subsection \<open>Packages on disk\<close>

text \<open>
  Six packages of one file each.
  \<^item> \<open>ex/m1\<close>, package \<open>m1\<close>: \<^verbatim>\<open>type User struct { ID string `json:"id"`; Age int `json:"age"` }\<close>
  \<^item> \<open>ex/m2\<close>, package \<open>m2\<close>: \<^verbatim>\<open>type UserDTO struct { ID string `json:"id"`; Age int `json:"age"` }\<close>
  \<^item> \<open>ex/p1\<close>, package \<open>p1\<close>, which imports \<open>ex/p2\<close>: \<^verbatim>\<open>type A = p2.B\<close>, \<^verbatim>\<open>type C = D\<close> and
    \<^verbatim>\<open>type D struct { X int }\<close>
  \<^item> \<open>ex/p2\<close>, package \<open>p2\<close>: \<^verbatim>\<open>type B struct { X int }\<close>
  \<^item> \<open>ex/cyc\<close>, package \<open>cyc\<close>: \<^verbatim>\<open>type A struct { *B }\<close> and \<^verbatim>\<open>type B struct { *A }\<close>
  \<^item> \<open>ex/loop\<close>, package \<open>loop\<close>: \<^verbatim>\<open>type P = Q\<close> and \<^verbatim>\<open>type Q = P\<close>
  No other path can be loaded.
\<close>

definition backquote :: char where
  "backquote = CHR 0x60"

definition jsonTag :: "string \<Rightarrow> string" where
  "jsonTag v = [backquote] @ ''json:'' @ [dquote] @ v @ [dquote] @ [backquote]"

definition exampleLoad :: loader where
  "exampleLoad path =
     (if path = ''ex/m1'' then
        Inr [\<lparr>Pkg_Name = ''m1'', Pkg_PkgPath = ''ex/m1'', Pkg_GoFiles = [''m1.go''], Pkg_Errors = []\<rparr>]
      else if path = ''ex/m2'' then
        Inr [\<lparr>Pkg_Name = ''m2'', Pkg_PkgPath = ''ex/m2'', Pkg_GoFiles = [''m2.go''], Pkg_Errors = []\<rparr>]
      else if path = ''ex/p1'' then
        Inr [\<lparr>Pkg_Name = ''p1'', Pkg_PkgPath = ''ex/p1'', Pkg_GoFiles = [''p1.go''], Pkg_Errors = []\<rparr>]
      else if path = ''ex/p2'' then
        Inr [\<lparr>Pkg_Name = ''p2'', Pkg_PkgPath = ''ex/p2'', Pkg_GoFiles = [''p2.go''], Pkg_Errors = []\<rparr>]
      else if path = ''ex/cyc'' then
        Inr [\<lparr>Pkg_Name = ''cyc'', Pkg_PkgPath = ''ex/cyc'', Pkg_GoFiles = [''cyc.go''], Pkg_Errors = []\<rparr>]
      else if path = ''ex/loop'' then
        Inr [\<lparr>Pkg_Name = ''loop'', Pkg_PkgPath = ''ex/loop'', Pkg_GoFiles = [''loop.go''], Pkg_Errors = []\<rparr>]
      else Inl (''no required module provides package '' @ path))"

definition twoFields :: "Field list" where
  "twoFields =
     [Field [''ID''] (Ident ''string'') (Some (jsonTag ''id'')),
      Field [''Age''] (Ident ''int'') (Some (jsonTag ''age''))]"

definition exampleParse :: "string \<Rightarrow> File option" where
  "exampleParse file =
     (if file = ''m1.go'' then
        Some \<lparr>File_Imports = [],
              File_TypeSpecs = [\<lparr>TS_Name = ''User'', TS_Type = StructType twoFields\<rparr>]\<rparr>
      else if file = ''m2.go'' then
        Some \<lparr>File_Imports = [],
              File_TypeSpecs = [\<lparr>TS_Name = ''UserDTO'', TS_Type = StructType twoFields\<rparr>]\<rparr>
      else if file = ''p1.go'' then
        Some \<lparr>File_Imports = [\<lparr>Imp_Name = None, Imp_Path = [dquote] @ ''ex/p2'' @ [dquote]\<rparr>],
              File_TypeSpecs =
                [\<lparr>TS_Name = ''A'', TS_Type = SelectorExpr (Ident ''p2'') ''B''\<rparr>,
                 \<lparr>TS_Name = ''C'', TS_Type = Ident ''D''\<rparr>,
                 \<lparr>TS_Name = ''D'', TS_Type = StructType [Field [''X''] (Ident ''int'') None]\<rparr>]\<rparr>
      else if file = ''p2.go'' then
        Some \<lparr>File_Imports = [],
              File_TypeSpecs =
                [\<lparr>TS_Name = ''B'', TS_Type = StructType [Field [''X''] (Ident ''int'') None]\<rparr>]\<rparr>
      else if file = ''cyc.go'' then
        Some \<lparr>File_Imports = [],
              File_TypeSpecs =
                [\<lparr>TS_Name = ''A'', TS_Type = StructType [Field [] (StarExpr (Ident ''B'')) None]\<rparr>,
                 \<lparr>TS_Name = ''B'', TS_Type = StructType [Field [] (StarExpr (Ident ''A'')) None]\<rparr>]\<rparr>
      else if file = ''loop.go'' then
        Some \<lparr>File_Imports = [],
              File_TypeSpecs =
                [\<lparr>TS_Name = ''P'', TS_Type = Ident ''Q''\<rparr>,
                 \<lparr>TS_Name = ''Q'', TS_Type = Ident ''P''\<rparr>]\<rparr>
      else None)"

definition exampleEnv :: env where
  "exampleEnv =
     \<lparr>Load = exampleLoad, ParseFile = exampleParse, Fprint = printExpr,
      Execute = (\<lambda>tmpl data. render data tmpl), StructTag_Get = tagGet\<rparr>"

text \<open>
  A configuration with one mapping, from \<open>m1.User\<close> to \<open>m2.UserDTO\<close>, and no conversion
  rule.
\<close>

definition exampleMapping :: Mapping where
  "exampleMapping =
     \<lparr>From = \<lparr>TypeTemplate = ''{{ .Import0 }}.User'', Imports = [''ex/m1'']\<rparr>,
      To = \<lparr>TypeTemplate = ''{{ .Import0 }}.UserDTO'', Imports = [''ex/m2'']\<rparr>,
      FuncName = [], FuncAdditionalArgs = [], CustomFieldMappings = [], CustomConversions = [],
      Mapping_Tag = []\<rparr>"

definition exampleConfig :: Config where
  "exampleConfig =
     \<lparr>OutPackageName = ''main'', OutFileName = [], OutFilePath = [], Mappings = [exampleMapping],
      Debug = False\<rparr>"

subsection \<open>Conversion rules and fields\<close>

text \<open>
  A rule from \<open>int\<close> to \<open>*int\<close> with a forward template only, and a second rule for the same
  pair whose forward template is fallible and which has a reverse template.
\<close>

definition intToPtr :: Conversion where
  "intToPtr =
     \<lparr>SourceType = ''int'', DestType = ''*int'',
      Conversion = \<lparr>Tmpl = ''{{ .Dest }} = &{{ .Source }}'', Error = False\<rparr>,
      ReverseConversion = \<lparr>Tmpl = [], Error = False\<rparr>, Conv_Imports = []\<rparr>"

definition intToPtrChecked :: Conversion where
  "intToPtrChecked =
     \<lparr>SourceType = ''int'', DestType = ''*int'',
      Conversion = \<lparr>Tmpl = ''{{ .Dest }}, {{ .Error }} = box({{ .Source }})'', Error = True\<rparr>,
      ReverseConversion = \<lparr>Tmpl = ''{{ .Dest }} = *{{ .Source }}'', Error = False\<rparr>,
      Conv_Imports = []\<rparr>"

definition plainType :: "string \<Rightarrow> TypeWithImportsTemplate" where
  "plainType t = \<lparr>TypeTemplate = t, Imports = []\<rparr>"

definition plainField :: "string \<Rightarrow> string \<Rightarrow> string \<Rightarrow> FieldDefinition" where
  "plainField name tag t = \<lparr>Name = name, Field_Tag = tag, Field_Type = plainType t\<rparr>"

section \<open>The conversion resolver as the specification words it\<close>

text \<open>
  The specification compares type templates by their rendered text and searches the
  mapping-local rules before the global ones, each list in declaration order, for the
  first rule that matches forward or, having a reverse template, in reverse. \<open>resolve\<close>
  is that search, written with \<open>find\<close> over the concatenated lists; \<open>renders\<close> says that a
  template can be rendered (parsing and executing it does not panic).
\<close>

definition renders :: "env \<Rightarrow> ImportManager \<Rightarrow> TypeWithImportsTemplate \<Rightarrow> bool" where
  "renders e im t = (\<not> isl (ExecuteTemplate e im t))"

definition rendered :: "env \<Rightarrow> ImportManager \<Rightarrow> TypeWithImportsTemplate \<Rightarrow> string" where
  "rendered e im t = (case ExecuteTemplate e im t of Inl f \<Rightarrow> [] | Inr text \<Rightarrow> text)"

definition forwardMatch ::
  "env \<Rightarrow> ImportManager \<Rightarrow> TypeWithImportsTemplate \<Rightarrow> TypeWithImportsTemplate \<Rightarrow> Conversion \<Rightarrow> bool"
where
  "forwardMatch e im s d r =
     (rendered e im (GetSourceTypeWithImportsTemplate r) = rendered e im s
      \<and> rendered e im (GetDestTypeWithImportsTemplate r) = rendered e im d)"

definition reverseMatch ::
  "env \<Rightarrow> ImportManager \<Rightarrow> TypeWithImportsTemplate \<Rightarrow> TypeWithImportsTemplate \<Rightarrow> Conversion \<Rightarrow> bool"
where
  "reverseMatch e im s d r =
     (rendered e im (GetDestTypeWithImportsTemplate r) = rendered e im s
      \<and> rendered e im (GetSourceTypeWithImportsTemplate r) = rendered e im d
      \<and> Tmpl (ReverseConversion r) \<noteq> [])"

definition resolve ::
  "env \<Rightarrow> ImportManager \<Rightarrow> TypeWithImportsTemplate \<Rightarrow> TypeWithImportsTemplate \<Rightarrow> Conversion list
     \<Rightarrow> Conversion list \<Rightarrow> (Conversion \<times> bool) option"
where
  "resolve e im s d localRules globalRules =
     (case find (\<lambda>r. forwardMatch e im s d r \<or> reverseMatch e im s d r) (localRules @ globalRules) of
        None \<Rightarrow> None
      | Some r \<Rightarrow> Some (r, \<not> forwardMatch e im s d r))"

definition ruleTypes :: "Conversion list \<Rightarrow> TypeWithImportsTemplate list" where
  "ruleTypes rs = concat (map (\<lambda>r. [GetSourceTypeWithImportsTemplate r, GetDestTypeWithImportsTemplate r]) rs)"

section \<open>Notions for the import manager\<close>

text \<open>
  The path that \<open>AddImport\<close> registers for its argument, the manager reached by
  registering a list of paths in order, one rendered import line, and whether a text
  references an entry (its alias followed by a dot occurs in the text).
\<close>

definition normalize :: "string \<Rightarrow> string" where
  "normalize importPath = strings_Trim (strings_TrimSpace importPath) [dquote]"

definition registered :: "string list \<Rightarrow> ImportManager" where
  "registered paths = addImports NewImportManager paths"

definition importLine :: "string \<times> string \<Rightarrow> string" where
  "importLine entry = [tab] @ snd entry @ '' '' @ [dquote] @ fst entry @ [dquote]"

definition referenced :: "string \<Rightarrow> string \<times> string \<Rightarrow> bool" where
  "referenced pattern entry = strings_Contains pattern (snd entry @ ''.'')"

text \<open>Reading a decimal numeral back, to tell two aliases apart.\<close>

definition atoi :: "string \<Rightarrow> nat" where
  "atoi s = foldl (\<lambda>acc c. 10 * acc + (of_char c - 48)) 0 s"

text \<open>
  The invariant of the import manager: the counter is one more than the number of
  entries, the aliases are \<open>ref1\<close>, \<open>ref2\<close>, ... in order of registration, and no path is
  registered twice.
\<close>

definition wellNumbered :: "ImportManager \<Rightarrow> bool" where
  "wellNumbered im =
     (aliasCounter im = length (imports_map im) + 1
      \<and> map snd (imports_map im) = map (\<lambda>k. ''ref'' @ itoa k) [1..<length (imports_map im) + 1]
      \<and> distinct (map fst (imports_map im)))"

text \<open>
  Twelve registrations of ten distinct paths (one path has no separator, one is
  repeated), and a function text that references three of the aliases.
\<close>

definition tenPaths :: "string list" where
  "tenPaths = [''a/p1'', ''a/p2'', ''a/p3'', ''a/p4'', ''a/p5'', ''a/p6'', ''a/p7'', ''a/p8'',
               ''a/p9'', ''a/p10'', ''strings'', ''a/p3'']"

definition threeUsed :: string where
  "threeUsed = ''func F(src ref2.A) (dst ref7.B) { dst.X = ref10.Conv(src.X) }''"

section \<open>The field matcher as the specification words it\<close>

text \<open>
  The specification matches against the ordered list of source fields: an override
  resolves a name to the source field of that name (the last declared one) and a tag to
  the first source field with that tag value; then comes the last source field with the
  destination's name, then the last one with the destination's tag value, unless that
  value is empty. \<open>matchField\<close> is that procedure, on the list alone, with the first
  override in declaration order that yields a result taking precedence.
\<close>

definition lastNamed :: "string \<Rightarrow> FieldDefinition list \<Rightarrow> FieldDefinition option" where
  "lastNamed name sourceFields = find (\<lambda>f. Name f = name) (rev sourceFields)"

definition lastTagged :: "env \<Rightarrow> string \<Rightarrow> string \<Rightarrow> FieldDefinition list \<Rightarrow> FieldDefinition option" where
  "lastTagged e tagKey v sourceFields = find (\<lambda>f. tagValue e (Field_Tag f) tagKey = v) (rev sourceFields)"

definition overrideResult ::
  "env \<Rightarrow> FieldDefinition \<Rightarrow> string \<Rightarrow> FieldDefinition list \<Rightarrow> CustomFieldMapping
     \<Rightarrow> FieldDefinition option"
where
  "overrideResult e dest tagKey sourceFields ov =
     (let key = (if CFM_Tag ov = [] then tagKey else CFM_Tag ov);
          byNameRule = (if DestField ov \<noteq> [] \<and> DestField ov = Name dest \<and> SourceField ov \<noteq> []
                        then lastNamed (SourceField ov) sourceFields else None);
          byTagRule = (if DestTag ov \<noteq> [] \<and> tagValue e (Field_Tag dest) key = DestTag ov
                          \<and> SourceTag ov \<noteq> []
                       then find (\<lambda>f. tagValue e (Field_Tag f) key = SourceTag ov) sourceFields
                       else None)
      in case byNameRule of Some f \<Rightarrow> Some f | None \<Rightarrow> byTagRule)"

fun firstResult :: "('a \<Rightarrow> 'b option) \<Rightarrow> 'a list \<Rightarrow> 'b option" where
  "firstResult rule [] = None"
| "firstResult rule (x # xs) = (case rule x of Some y \<Rightarrow> Some y | None \<Rightarrow> firstResult rule xs)"

definition matchField ::
  "env \<Rightarrow> FieldDefinition \<Rightarrow> FieldDefinition list \<Rightarrow> CustomFieldMapping list \<Rightarrow> string
     \<Rightarrow> FieldDefinition option"
where
  "matchField e dest sourceFields overrides tagKey =
     (case firstResult (overrideResult e dest tagKey sourceFields) overrides of
        Some f \<Rightarrow> Some f
      | None \<Rightarrow>
          (case lastNamed (Name dest) sourceFields of
             Some f \<Rightarrow> Some f
           | None \<Rightarrow>
               if tagValue e (Field_Tag dest) tagKey = [] then None
               else lastTagged e tagKey (tagValue e (Field_Tag dest) tagKey) sourceFields))"

text \<open>
  Five source fields with \<open>json\<close> tags, two of them with the same tag value, and two
  overrides for a destination field \<open>F\<close> tagged \<open>x\<close>: one by tag, one by name.
\<close>

definition jsonField :: "string \<Rightarrow> string \<Rightarrow> FieldDefinition" where
  "jsonField name v = plainField name (''json:'' @ [dquote] @ v @ [dquote]) ''string''"

definition fiveSources :: "FieldDefinition list" where
  "fiveSources = [jsonField ''F'' ''f'', jsonField ''G'' ''g'', jsonField ''H'' ''h'',
                  jsonField ''K1'' ''dup'', jsonField ''K2'' ''dup,omitempty'']"

definition tagOverride :: CustomFieldMapping where
  "tagOverride = \<lparr>SourceField = [], DestField = [], SourceTag = ''h'', DestTag = ''x'', CFM_Tag = []\<rparr>"

definition nameOverride :: CustomFieldMapping where
  "nameOverride = \<lparr>SourceField = ''G'', DestField = ''F'', SourceTag = [], DestTag = [], CFM_Tag = []\<rparr>"

section \<open>Notions for the runs of the generator\<close>

text \<open>
  The package \<open>ex/cyc\<close> as it is loaded, and the caches in which the path \<open>ex/cyc\<close> is
  either absent or bound to that package.
\<close>

definition cycPackage :: Package where
  "cycPackage = \<lparr>Pkg_Name = ''cyc'', Pkg_PkgPath = ''ex/cyc'', Pkg_GoFiles = [''cyc.go''], Pkg_Errors = []\<rparr>"

definition cycCache :: "packageCache \<Rightarrow> bool" where
  "cycCache pm = (pm ''ex/cyc'' = None \<or> pm ''ex/cyc'' = Some (Some cycPackage))"

text \<open>A configuration whose one mapping starts from the struct \<open>A\<close> of \<open>ex/cyc\<close>.\<close>

definition cycMapping :: Mapping where
  "cycMapping =
     \<lparr>From = \<lparr>TypeTemplate = ''{{ .Import0 }}.A'', Imports = [''ex/cyc'']\<rparr>,
      To = \<lparr>TypeTemplate = ''{{ .Import0 }}.UserDTO'', Imports = [''ex/m2'']\<rparr>,
      FuncName = [], FuncAdditionalArgs = [], CustomFieldMappings = [], CustomConversions = [],
      Mapping_Tag = []\<rparr>"

definition cycConfig :: Config where
  "cycConfig =
     \<lparr>OutPackageName = ''main'', OutFileName = [], OutFilePath = [], Mappings = [cycMapping],
      Debug = False\<rparr>"

text \<open>
  The text that \<open>Generate\<close> returns for \<open>exampleConfig\<close>, with the two import lines in the
  order given.
\<close>

definition importLine1 :: string where
  "importLine1 = [tab] @ ''ref1 '' @ [dquote] @ ''ex/m1'' @ [dquote]"

definition importLine2 :: string where
  "importLine2 = [tab] @ ''ref2 '' @ [dquote] @ ''ex/m2'' @ [dquote]"

definition exampleOutput :: "string \<Rightarrow> string \<Rightarrow> string" where
  "exampleOutput first second =
     ''// Code generated by structmap; DO NOT EDIT.'' @ [newline]
     @ ''package main'' @ [newline, newline]
     @ ''import ('' @ [newline] @ first @ [newline] @ second @ [newline] @ '')'' @ [newline, newline]
     @ ''// MapUserToUserDTO copies User '' @ arrow @ '' UserDTO'' @ [newline]
     @ ''func MapUserToUserDTO(src ref1.User) (dst ref2.UserDTO) {'' @ [newline]
     @ ''    dst.ID = src.ID'' @ [newline, tab] @ ''dst.Age = src.Age'' @ [newline]
     @ ''    return'' @ [newline] @ ''}'' @ [newline]"

section \<open>Properties of the package manager\<close>

text \<open>
  C9. The claim: for a path whose load fails, every call of \<open>GetPackage\<close>, the calls after
  the first failure included, returns an error and never a nil package without one.
  The code stores the nil package of the failed load in the cache before it returns, and
  a path that is in the cache is answered without an error. So the first call returns
  the error and the second call returns the nil package with a nil error.
\<close>

theorem GetPackage_failed_load_cached_as_success:
  assumes "pm pkgPath = None" and "loadPackage load pkgPath = (None, Some err)"
  shows "fst (GetPackage load pm pkgPath) = (None, Some err)
         \<and> fst (GetPackage load (snd (GetPackage load pm pkgPath)) pkgPath) = (None, None)"
  using assms by (simp add: GetPackage_def)

theorem GetPackage_failed_load_cached_as_success_witness:
  "fst (GetPackage exampleLoad NewPackageManager ''ex/missing'')
     = (None, Some ''failed to load package ex/missing: no required module provides package ex/missing'')
   \<and> fst (GetPackage exampleLoad (snd (GetPackage exampleLoad NewPackageManager ''ex/missing''))
          ''ex/missing'') = (None, None)"
proof -
  have a: "NewPackageManager ''ex/missing'' = None"
    by (simp add: NewPackageManager_def)
  have b: "loadPackage exampleLoad ''ex/missing''
             = (None, Some ''failed to load package ex/missing: no required module provides package ex/missing'')"
    by (simp add: loadPackage_def exampleLoad_def)
  show ?thesis
    using GetPackage_failed_load_cached_as_success
            [of NewPackageManager "''ex/missing''" exampleLoad, OF a b]
    by simp
qed

section \<open>Properties of the tag value\<close>

lemma split_from_hd: "hd (split_from cur s [c]) = cur @ takeWhile (\<lambda>x. x \<noteq> c) s"
proof (induction s arbitrary: cur)
  case Nil
  show ?case by (subst split_from.simps) simp
next
  case (Cons x xs)
  show ?case
  proof (cases "x = c")
    case True
    then show ?thesis by (subst split_from.simps) simp
  next
    case False
    then show ?thesis using Cons [of "cur @ [x]"] by (subst split_from.simps) simp
  qed
qed

lemma strings_Split_hd: "hd (strings_Split s [c]) = takeWhile (\<lambda>x. x \<noteq> c) s"
  by (simp add: strings_Split_def split_from_hd)

lemma tagValue_unfold:
  "tagValue e tag key =
     (let v = StructTag_Get e tag key; part = takeWhile (\<lambda>c. c \<noteq> CHR '','') v
      in if tag = [] \<or> v = [] \<or> part = ''-'' then [] else part)"
  by (simp add: tagValue_def Let_def strings_Split_hd)

text \<open>
  C10. The value that \<open>tagValue\<close> returns, which default tag matching and tag-based
  overrides both compare, is the part of the tag's value before the first comma: the
  options after the comma are ignored. It is empty, which never matches, when the tag is
  empty, when the key has no value, or when that first part is \<open>-\<close>.
\<close>

theorem tagValue_is_first_comma_part:
  "tagValue e tag key =
     (let v = StructTag_Get e tag key; part = takeWhile (\<lambda>c. c \<noteq> CHR '','') v
      in if tag = [] \<or> v = [] \<or> part = ''-'' then [] else part)"
  by (rule tagValue_unfold)


lemma tagGet_id_omitempty:
  "tagGet (''json:'' @ [dquote] @ ''id,omitempty'' @ [dquote]) ''json'' = ''id,omitempty''"
  by (simp add: tagGet_def dquote_def nameChar_def newline_def)

lemma tagGet_dash:
  "tagGet (''json:'' @ [dquote] @ ''-,omitempty'' @ [dquote]) ''json'' = ''-,omitempty''"
  by (simp add: tagGet_def dquote_def nameChar_def newline_def)

theorem tagValue_is_first_comma_part_witness:
  "tagValue exampleEnv (''json:'' @ [dquote] @ ''id,omitempty'' @ [dquote]) ''json'' = ''id''
   \<and> tagValue exampleEnv (''json:'' @ [dquote] @ ''-,omitempty'' @ [dquote]) ''json'' = []"
  using tagValue_is_first_comma_part [of exampleEnv "''json:'' @ [dquote] @ ''id,omitempty'' @ [dquote]" "''json''"]
        tagValue_is_first_comma_part [of exampleEnv "''json:'' @ [dquote] @ ''-,omitempty'' @ [dquote]" "''json''"]
        tagGet_id_omitempty tagGet_dash
  by (simp add: exampleEnv_def Let_def)

section \<open>Properties of the conversion resolver\<close>

lemma Equals_rendered:
  "renders e im t \<Longrightarrow> renders e im u \<Longrightarrow> Equals e im t u = Inr (rendered e im t = rendered e im u)"
  by (auto simp: renders_def rendered_def Equals_def split: sum.splits)

lemma equalsFunc_pure:
  assumes "renders e im (GetSourceTypeWithImportsTemplate r)" "renders e im (GetDestTypeWithImportsTemplate r)"
    "renders e im s" "renders e im d"
  shows "equalsFunc e im r s d = Inr (forwardMatch e im s d r)"
  using assms by (simp add: equalsFunc_def Equals_rendered forwardMatch_def)

lemma reverseEqualsFunc_pure:
  assumes "renders e im (GetSourceTypeWithImportsTemplate r)" "renders e im (GetDestTypeWithImportsTemplate r)"
    "renders e im s" "renders e im d"
  shows "reverseEqualsFunc e im r s d = Inr (reverseMatch e im s d r)"
  using assms by (simp add: reverseEqualsFunc_def Equals_rendered reverseMatch_def)

lemma findIn_pure:
  assumes "renders e im s" "renders e im d" "list_all (renders e im) (ruleTypes rs)"
  shows "findIn e im s d rs =
           Inr (case find (\<lambda>r. forwardMatch e im s d r \<or> reverseMatch e im s d r) rs of
                  None \<Rightarrow> None
                | Some r \<Rightarrow> Some (r, \<not> forwardMatch e im s d r))"
  using assms(3)
proof (induction rs)
  case Nil
  show ?case by simp
next
  case (Cons r rs)
  from Cons.prems have r: "renders e im (GetSourceTypeWithImportsTemplate r)"
      "renders e im (GetDestTypeWithImportsTemplate r)" and rs: "list_all (renders e im) (ruleTypes rs)"
    by (simp_all add: ruleTypes_def)
  show ?case
    using Cons.IH [OF rs]
    by (simp add: equalsFunc_pure [OF r assms(1,2)] reverseEqualsFunc_pure [OF r assms(1,2)])
qed

lemma find_over_append:
  "find P (xs @ ys) = (case find P xs of None \<Rightarrow> find P ys | Some x \<Rightarrow> Some x)"
  by (induction xs) simp_all

lemma findConversion_pure:
  assumes "renders e im s" "renders e im d"
    "list_all (renders e im) (ruleTypes (localRules @ globalRules))"
  shows "findConversion e im s d globalRules localRules = Inr (resolve e im s d localRules globalRules)"
proof -
  from assms(3) have l: "list_all (renders e im) (ruleTypes localRules)"
    and g: "list_all (renders e im) (ruleTypes globalRules)"
    by (simp_all add: ruleTypes_def)
  show ?thesis
    by (simp add: findConversion_def resolve_def findIn_pure [OF assms(1,2) l]
          findIn_pure [OF assms(1,2) g] find_over_append split: option.splits)
qed
lemma render_int: "render Map.empty ''int'' = Some ''int''"
  by simp

lemma render_ptr: "render Map.empty ''*int'' = Some ''*int''"
  by simp

lemma ExecuteTemplate_plain_int:
  "ExecuteTemplate exampleEnv im \<lparr>TypeTemplate = ''int'', Imports = []\<rparr> = Inr ''int''"
  by (simp add: ExecuteTemplate_def exampleEnv_def)

lemma ExecuteTemplate_plain_ptr:
  "ExecuteTemplate exampleEnv im \<lparr>TypeTemplate = ''*int'', Imports = []\<rparr> = Inr ''*int''"
  by (simp add: ExecuteTemplate_def exampleEnv_def)

lemmas example_render =
  renders_def rendered_def ExecuteTemplate_plain_int ExecuteTemplate_plain_ptr plainType_def
  GetSourceTypeWithImportsTemplate_def GetDestTypeWithImportsTemplate_def
  NewTypeWithImportsTemplate_def intToPtr_def intToPtrChecked_def ruleTypes_def

text \<open>
  C5. When every type template involved can be rendered, \<open>findConversion\<close> returns what
  the search of the specification returns: the first rule of the mapping-local list
  followed by the global list that matches forward or, having a reverse template, in
  reverse, flagged as reverse exactly when it does not match forward. So a matching
  local rule wins over any global rule; the line emitted for the field is the rendering
  of the rule found, its forward template or, for a reverse match, its reverse template,
  on \<open>src.X\<close>, \<open>dst.Y\<close> and \<open>err\<close>; and when no rule matches the field is assigned by a
  direct copy.
\<close>

theorem findConversion_search_order:
  assumes "renders e im (Field_Type src)" and "renders e im (Field_Type dest)"
    and "list_all (renders e im) (ruleTypes (localRules @ globalRules))"
  shows "findConversion e im (Field_Type src) (Field_Type dest) globalRules localRules
           = Inr (resolve e im (Field_Type src) (Field_Type dest) localRules globalRules)
         \<and> (list_ex (\<lambda>r. forwardMatch e im (Field_Type src) (Field_Type dest) r
                          \<or> reverseMatch e im (Field_Type src) (Field_Type dest) r) localRules
              \<longrightarrow> resolve e im (Field_Type src) (Field_Type dest) localRules globalRules
                    = resolve e im (Field_Type src) (Field_Type dest) localRules [])
         \<and> (resolve e im (Field_Type src) (Field_Type dest) localRules globalRules = None
              \<longrightarrow> assignmentLine e im (Some src) dest globalRules localRules None
                    = Inr (''dst.'' @ Name dest @ '' = src.'' @ Name src, False))
         \<and> (resolve e im (Field_Type src) (Field_Type dest) localRules globalRules = Some (r, rv)
              \<longrightarrow> assignmentLine e im (Some src) dest globalRules localRules None
                    = assignmentWithConversion e im (''src.'' @ Name src) dest (Some r) rv
                \<and> assignmentLine e im (Some src) dest globalRules localRules None
                    = (if rv
                       then ExecuteReverseConversionTemplate e r (''src.'' @ Name src)
                              (''dst.'' @ Name dest) ''err'' im
                       else ExecuteConversionTemplate e r (''src.'' @ Name src)
                              (''dst.'' @ Name dest) ''err'' im))"
proof (intro conjI impI)
  show fc: "findConversion e im (Field_Type src) (Field_Type dest) globalRules localRules
           = Inr (resolve e im (Field_Type src) (Field_Type dest) localRules globalRules)"
    by (rule findConversion_pure [OF assms])
  {
    assume "list_ex (\<lambda>r. forwardMatch e im (Field_Type src) (Field_Type dest) r
                          \<or> reverseMatch e im (Field_Type src) (Field_Type dest) r) localRules"
    then obtain r where "find (\<lambda>r. forwardMatch e im (Field_Type src) (Field_Type dest) r
                          \<or> reverseMatch e im (Field_Type src) (Field_Type dest) r) localRules = Some r"
      by (cases "find (\<lambda>r. forwardMatch e im (Field_Type src) (Field_Type dest) r
                          \<or> reverseMatch e im (Field_Type src) (Field_Type dest) r) localRules")
         (auto simp: find_None_iff list_ex_iff)
    then show "resolve e im (Field_Type src) (Field_Type dest) localRules globalRules
                    = resolve e im (Field_Type src) (Field_Type dest) localRules []"
      by (simp add: resolve_def find_over_append)
  }
  {
    assume "resolve e im (Field_Type src) (Field_Type dest) localRules globalRules = None"
    with fc show "assignmentLine e im (Some src) dest globalRules localRules None
                    = Inr (''dst.'' @ Name dest @ '' = src.'' @ Name src, False)"
      by (simp add: assignmentLine_def assignmentWithConversion_def)
  }
  {
    assume m: "resolve e im (Field_Type src) (Field_Type dest) localRules globalRules = Some (r, rv)"
    with fc show line: "assignmentLine e im (Some src) dest globalRules localRules None
                    = assignmentWithConversion e im (''src.'' @ Name src) dest (Some r) rv"
      by (simp add: assignmentLine_def)
    show "assignmentLine e im (Some src) dest globalRules localRules None
                    = (if rv
                       then ExecuteReverseConversionTemplate e r (''src.'' @ Name src)
                              (''dst.'' @ Name dest) ''err'' im
                       else ExecuteConversionTemplate e r (''src.'' @ Name src)
                              (''dst.'' @ Name dest) ''err'' im)"
      unfolding line by (simp add: assignmentWithConversion_def)
  }
qed

lemma intToPtr_line:
  "ExecuteConversionTemplate exampleEnv intToPtr ''src.Count'' ''dst.Ptr'' ''err'' NewImportManager
     = Inr (''dst.Ptr = &src.Count'', False)"
  by code_simp

lemma intToPtrChecked_reverse_line:
  "ExecuteReverseConversionTemplate exampleEnv intToPtrChecked ''src.Ptr'' ''dst.Count'' ''err''
     NewImportManager = Inr (''dst.Count = *src.Ptr'', False)"
  by code_simp

theorem findConversion_search_order_witness:
  "findConversion exampleEnv NewImportManager (plainType ''int'') (plainType ''*int'')
       [intToPtrChecked] [intToPtr] = Inr (Some (intToPtr, False))
   \<and> findConversion exampleEnv NewImportManager (plainType ''*int'') (plainType ''int'')
       [intToPtrChecked] [intToPtr] = Inr (Some (intToPtrChecked, True))
   \<and> assignmentLine exampleEnv NewImportManager (Some (plainField ''Count'' [] ''int''))
        (plainField ''Total'' [] ''int'') [intToPtrChecked] [intToPtr] None
       = Inr (''dst.Total = src.Count'', False)
   \<and> assignmentLine exampleEnv NewImportManager (Some (plainField ''Count'' [] ''int''))
        (plainField ''Ptr'' [] ''*int'') [intToPtrChecked] [intToPtr] None
       = Inr (''dst.Ptr = &src.Count'', False)
   \<and> assignmentLine exampleEnv NewImportManager (Some (plainField ''Ptr'' [] ''*int''))
        (plainField ''Count'' [] ''int'') [intToPtrChecked] [intToPtr] None
       = Inr (''dst.Count = *src.Ptr'', False)"
proof -
  have a: "findConversion exampleEnv NewImportManager (plainType ''int'') (plainType ''*int'')
       [intToPtrChecked] [intToPtr] = Inr (Some (intToPtr, False))"
    using findConversion_search_order [of exampleEnv NewImportManager "plainField ''Count'' [] ''int''"
        "plainField ''Ptr'' [] ''*int''" "[intToPtr]" "[intToPtrChecked]"]
    by (simp add: example_render plainField_def resolve_def forwardMatch_def reverseMatch_def)
  have b: "findConversion exampleEnv NewImportManager (plainType ''*int'') (plainType ''int'')
       [intToPtrChecked] [intToPtr] = Inr (Some (intToPtrChecked, True))"
    using findConversion_search_order [of exampleEnv NewImportManager "plainField ''Ptr'' [] ''*int''"
        "plainField ''Count'' [] ''int''" "[intToPtr]" "[intToPtrChecked]"]
    by (simp add: example_render plainField_def resolve_def forwardMatch_def reverseMatch_def)
  have c: "assignmentLine exampleEnv NewImportManager (Some (plainField ''Count'' [] ''int''))
        (plainField ''Total'' [] ''int'') [intToPtrChecked] [intToPtr] None
       = Inr (''dst.Total = src.Count'', False)"
    using findConversion_search_order [of exampleEnv NewImportManager "plainField ''Count'' [] ''int''"
        "plainField ''Total'' [] ''int''" "[intToPtr]" "[intToPtrChecked]"]
    by (simp add: example_render plainField_def resolve_def forwardMatch_def reverseMatch_def)
  have r1: "resolve exampleEnv NewImportManager (Field_Type (plainField ''Count'' [] ''int''))
              (Field_Type (plainField ''Ptr'' [] ''*int'')) [intToPtr] [intToPtrChecked]
            = Some (intToPtr, False)"
    by (simp add: example_render plainField_def resolve_def forwardMatch_def reverseMatch_def)
  have r2: "resolve exampleEnv NewImportManager (Field_Type (plainField ''Ptr'' [] ''*int''))
              (Field_Type (plainField ''Count'' [] ''int'')) [intToPtr] [intToPtrChecked]
            = Some (intToPtrChecked, True)"
    by (simp add: example_render plainField_def resolve_def forwardMatch_def reverseMatch_def)
  have h1: "renders exampleEnv NewImportManager (Field_Type (plainField ''Count'' [] ''int''))"
    and h2: "renders exampleEnv NewImportManager (Field_Type (plainField ''Ptr'' [] ''*int''))"
    and h3: "list_all (renders exampleEnv NewImportManager) (ruleTypes ([intToPtr] @ [intToPtrChecked]))"
    by (simp_all add: example_render plainField_def)
  have d: "assignmentLine exampleEnv NewImportManager (Some (plainField ''Count'' [] ''int''))
        (plainField ''Ptr'' [] ''*int'') [intToPtrChecked] [intToPtr] None
       = Inr (''dst.Ptr = &src.Count'', False)"
    using findConversion_search_order [OF h1 h2 h3, of intToPtr False,
            THEN conjunct2, THEN conjunct2, THEN conjunct2, THEN mp, OF r1, THEN conjunct2]
      intToPtr_line
    by (simp add: plainField_def)
  have e: "assignmentLine exampleEnv NewImportManager (Some (plainField ''Ptr'' [] ''*int''))
        (plainField ''Count'' [] ''int'') [intToPtrChecked] [intToPtr] None
       = Inr (''dst.Count = *src.Ptr'', False)"
    using findConversion_search_order [OF h2 h1 h3, of intToPtrChecked True,
            THEN conjunct2, THEN conjunct2, THEN conjunct2, THEN mp, OF r2, THEN conjunct2]
      intToPtrChecked_reverse_line
    by (simp add: plainField_def)
  from a b c d e show ?thesis by simp
qed

lemma reverseEqualsFunc_needs_template:
  "Tmpl (ReverseConversion c) = [] \<Longrightarrow> reverseEqualsFunc e im c s d \<noteq> Inr True"
  by (auto simp: reverseEqualsFunc_def split: sum.splits)

lemma find_none_of:
  "list_all (\<lambda>r. \<not> P r) rs \<Longrightarrow> find P rs = None"
  by (induction rs) simp_all

text \<open>
  C6. For a rule \<open>c\<close> without a reverse template: executing it in reverse gives the bare
  assignment and the flag \<open>False\<close>, whatever the template engine does; the reverse test of
  \<open>findConversion\<close> never selects it; and a source field of the rule's destination type
  mapped to a destination field of the rule's source type (the two types being
  different, so that this is not the forward direction, and no other rule of the lists
  applying to the pair) is assigned by \<open>dst.X = src.Y\<close>, not fallible.
\<close>

theorem reverse_without_template_is_bare_assignment:
  assumes "Tmpl (ReverseConversion c) = []"
  shows "ExecuteReverseConversionTemplate e c sourceVar destVar errorVar im
           = Inr (destVar @ '' = '' @ sourceVar, False)
         \<and> assignmentWithConversion e im sourceExpr dest (Some c) True
           = Inr (''dst.'' @ Name dest @ '' = '' @ sourceExpr, False)
         \<and> reverseEqualsFunc e im c (Field_Type src) (Field_Type dest) \<noteq> Inr True
         \<and> (renders e im (Field_Type src) \<and> renders e im (Field_Type dest)
              \<and> list_all (renders e im) (ruleTypes (localRules @ globalRules))
              \<and> rendered e im (GetDestTypeWithImportsTemplate c) = rendered e im (Field_Type src)
              \<and> rendered e im (GetSourceTypeWithImportsTemplate c) = rendered e im (Field_Type dest)
              \<and> rendered e im (Field_Type src) \<noteq> rendered e im (Field_Type dest)
              \<and> list_all (\<lambda>r. r = c \<or> (\<not> forwardMatch e im (Field_Type src) (Field_Type dest) r
                                       \<and> \<not> reverseMatch e im (Field_Type src) (Field_Type dest) r))
                    (localRules @ globalRules)
              \<longrightarrow> assignmentLine e im (Some src) dest globalRules localRules None
                    = Inr (''dst.'' @ Name dest @ '' = src.'' @ Name src, False))"
proof (intro conjI impI)
  show "ExecuteReverseConversionTemplate e c sourceVar destVar errorVar im
           = Inr (destVar @ '' = '' @ sourceVar, False)"
    using assms by (simp add: ExecuteReverseConversionTemplate_def)
  show "assignmentWithConversion e im sourceExpr dest (Some c) True
           = Inr (''dst.'' @ Name dest @ '' = '' @ sourceExpr, False)"
    using assms by (simp add: assignmentWithConversion_def ExecuteReverseConversionTemplate_def)
  show "reverseEqualsFunc e im c (Field_Type src) (Field_Type dest) \<noteq> Inr True"
    by (rule reverseEqualsFunc_needs_template [OF assms])
next
  assume h: "renders e im (Field_Type src) \<and> renders e im (Field_Type dest)
              \<and> list_all (renders e im) (ruleTypes (localRules @ globalRules))
              \<and> rendered e im (GetDestTypeWithImportsTemplate c) = rendered e im (Field_Type src)
              \<and> rendered e im (GetSourceTypeWithImportsTemplate c) = rendered e im (Field_Type dest)
              \<and> rendered e im (Field_Type src) \<noteq> rendered e im (Field_Type dest)
              \<and> list_all (\<lambda>r. r = c \<or> (\<not> forwardMatch e im (Field_Type src) (Field_Type dest) r
                                       \<and> \<not> reverseMatch e im (Field_Type src) (Field_Type dest) r))
                    (localRules @ globalRules)"
  have c_fwd: "\<not> forwardMatch e im (Field_Type src) (Field_Type dest) c"
    using h by (auto simp: forwardMatch_def)
  have c_rev: "\<not> reverseMatch e im (Field_Type src) (Field_Type dest) c"
    using assms by (simp add: reverseMatch_def)
  have "list_all (\<lambda>r. \<not> (forwardMatch e im (Field_Type src) (Field_Type dest) r
                          \<or> reverseMatch e im (Field_Type src) (Field_Type dest) r))
          (localRules @ globalRules)"
    using h c_fwd c_rev by (auto simp: list_all_iff)
  then have none: "resolve e im (Field_Type src) (Field_Type dest) localRules globalRules = None"
    by (simp add: resolve_def find_none_of)
  have "findConversion e im (Field_Type src) (Field_Type dest) globalRules localRules
          = Inr (resolve e im (Field_Type src) (Field_Type dest) localRules globalRules)"
    using h by (intro findConversion_pure) simp_all
  with none show "assignmentLine e im (Some src) dest globalRules localRules None
                    = Inr (''dst.'' @ Name dest @ '' = src.'' @ Name src, False)"
    by (simp add: assignmentLine_def assignmentWithConversion_def)
qed

theorem reverse_without_template_is_bare_assignment_witness:
  "Tmpl (ReverseConversion intToPtr) = []
   \<and> ExecuteReverseConversionTemplate exampleEnv intToPtr ''src.Ptr'' ''dst.Count'' ''err'' NewImportManager
       = Inr (''dst.Count = src.Ptr'', False)
   \<and> assignmentLine exampleEnv NewImportManager (Some (plainField ''Ptr'' [] ''*int''))
        (plainField ''Count'' [] ''int'') [intToPtr] [] None
       = Inr (''dst.Count = src.Ptr'', False)"
proof -
  have t: "Tmpl (ReverseConversion intToPtr) = []"
    by (simp add: intToPtr_def)
  from reverse_without_template_is_bare_assignment
         [OF t, of exampleEnv "''src.Ptr''" "''dst.Count''" "''err''" NewImportManager "''src.Ptr''"
            "plainField ''Count'' [] ''int''" "plainField ''Ptr'' [] ''*int''" "[]" "[intToPtr]"]
  show ?thesis
    using t by (simp add: example_render plainField_def)
qed

section \<open>Properties of the assembler\<close>

text \<open>
  C8. A destination field for which \<open>findSourceForDest\<close> finds no source field (no override
  applies, no name and no tag matches) and for which there is no additional argument
  gets the comment line that names it, with the flag \<open>False\<close>; the loop over the
  destination fields appends the line, leaves \<open>hasError\<close> as it is and goes on with the
  remaining fields.
\<close>

theorem unmapped_field_becomes_comment:
  assumes "findSourceForDest e destField byName byTag (CustomFieldMappings mapping) tag sourceFields = None"
    and "findAdditionalArg (FuncAdditionalArgs mapping) destField = None"
  shows "assignmentLine e im None destField convs (CustomConversions mapping) None
           = Inr (''// no matching source found for field: '' @ Name destField
                    @ '', consider adding an additional arg or aligning the fields'', False)
         \<and> assignLoop e im convs mapping byName byTag tag sourceFields (destField # rest) assigns hasError
           = assignLoop e im convs mapping byName byTag tag sourceFields rest
               (assigns @ [''// no matching source found for field: '' @ Name destField
                             @ '', consider adding an additional arg or aligning the fields''])
               hasError"
  using assms by (simp add: assignmentLine_def unmappedComment_def)

theorem unmapped_field_becomes_comment_witness:
  "assignLoop exampleEnv NewImportManager [] exampleMapping
     (fillByName [plainField ''ID'' [] ''string''] Map.empty)
     (fillByTag exampleEnv ''json'' [plainField ''ID'' [] ''string''] Map.empty) ''json''
     [plainField ''ID'' [] ''string'']
     [plainField ''LastName'' [] ''string'', plainField ''ID'' [] ''string''] [] False
   = Inr ([''// no matching source found for field: LastName, consider adding an additional arg or aligning the fields'',
           ''dst.ID = src.ID''], False)"
proof -
  have a: "findSourceForDest exampleEnv (plainField ''LastName'' [] ''string'')
             (fillByName [plainField ''ID'' [] ''string''] Map.empty)
             (fillByTag exampleEnv ''json'' [plainField ''ID'' [] ''string''] Map.empty)
             (CustomFieldMappings exampleMapping) ''json'' [plainField ''ID'' [] ''string''] = None"
    by (simp add: exampleMapping_def plainField_def plainType_def tagValue_def)
  have b: "findAdditionalArg (FuncAdditionalArgs exampleMapping) (plainField ''LastName'' [] ''string'') = None"
    by (simp add: exampleMapping_def)
  have c: "assignLoop exampleEnv NewImportManager [] exampleMapping
     (fillByName [plainField ''ID'' [] ''string''] Map.empty)
     (fillByTag exampleEnv ''json'' [plainField ''ID'' [] ''string''] Map.empty) ''json''
     [plainField ''ID'' [] ''string'']
     [plainField ''ID'' [] ''string'']
     [''// no matching source found for field: LastName, consider adding an additional arg or aligning the fields'']
     False
   = Inr ([''// no matching source found for field: LastName, consider adding an additional arg or aligning the fields'',
           ''dst.ID = src.ID''], False)"
    by (simp add: exampleMapping_def plainField_def plainType_def tagValue_def assignmentLine_def
          findConversion_def assignmentWithConversion_def)
  from unmapped_field_becomes_comment [OF a b, of NewImportManager "[]" "[plainField ''ID'' [] ''string'']" "[]" False] c
  show ?thesis by (simp add: plainField_def)
qed

section \<open>Properties of the import manager\<close>

lemma strings_Contains_char: "strings_Contains s [c] = (c \<in> set s)"
  by (induction s) auto

lemma trim_front_keeps:
  "c \<in> set s \<Longrightarrow> list_all (\<lambda>q. c \<notin> set q) seqs \<Longrightarrow> c \<in> set (trim_front seqs s)"
proof (induction seqs s rule: trim_front.induct)
  case (1 seqs s)
  show ?case
  proof (cases "find (\<lambda>q. prefix q s) seqs")
    case None
    with 1(2) show ?thesis by (subst trim_front.simps) simp
  next
    case (Some q)
    then have q: "prefix q s" "q \<in> set seqs" by (auto simp: find_Some_iff)
    show ?thesis
    proof (cases "q = []")
      case True
      with Some 1(2) show ?thesis by (subst trim_front.simps) simp
    next
      case False
      from q(1) obtain r where s: "s = q @ r" by (auto simp: prefix_def)
      from q(2) 1(3) have "c \<notin> set q" by (auto simp: list_all_iff)
      with 1(2) s have "c \<in> set (drop (length q) s)" by simp
      from 1(1) [OF Some False this 1(3)] Some False show ?thesis
        by (subst trim_front.simps) simp
    qed
  qed
qed

lemma slash_not_space: "list_all (\<lambda>q. CHR ''/'' \<notin> set q) space_seqs"
  by (simp add: space_seqs_def)

lemma slash_not_space_rev: "list_all (\<lambda>q. CHR ''/'' \<notin> set q) (map rev space_seqs)"
  by (simp add: space_seqs_def)

lemma TrimSpace_keeps_slash:
  "CHR ''/'' \<in> set s \<Longrightarrow> CHR ''/'' \<in> set (strings_TrimSpace s)"
  unfolding strings_TrimSpace_def
  using trim_front_keeps [OF _ slash_not_space_rev] trim_front_keeps [OF _ slash_not_space]
  by (metis set_rev)

lemma AddImport_cases:
  "AddImport im p =
     (if strings_Contains p ''/'' \<and> normalize p \<notin> fst ` set (imports_map im)
      then \<lparr>imports_map = imports_map im @ [(normalize p, ''ref'' @ itoa (aliasCounter im))],
            aliasCounter = aliasCounter im + 1\<rparr>
      else im)"
proof (cases "strings_Contains p ''/''")
  case False
  then show ?thesis by (simp add: AddImport_def)
next
  case True
  then have "CHR ''/'' \<in> set (strings_TrimSpace p)"
    by (simp add: strings_Contains_char TrimSpace_keeps_slash)
  then have "strings_TrimSpace p \<noteq> []" by auto
  with True show ?thesis
    by (auto simp: AddImport_def normalize_def Let_def map_of_eq_None_iff)
qed

lemma AddImport_idempotent: "AddImport (AddImport im p) p = AddImport im p"
  by (simp add: AddImport_cases [of im p] AddImport_cases [of _ p])

text \<open>Reading a decimal numeral back.\<close>
lemma digit_value: "k < 10 \<Longrightarrow> of_char (''0123456789'' ! k) - 48 = (k::nat)"
proof -
  assume "k < 10"
  then have "k \<in> set [0..<10]" by simp
  also have "[0..<10] = [0, 1, 2, 3, 4, 5, 6, 7, 8, 9::nat]" by (simp add: upt_rec)
  finally show ?thesis by auto
qed

lemma atoi_itoa: "atoi (itoa n) = n"
proof (induction n rule: itoa.induct)
  case (1 n)
  show ?case
  proof (cases "n < 10")
    case True
    then show ?thesis by (subst itoa.simps) (simp add: atoi_def digit_value)
  next
    case False
    with 1 have "atoi (itoa (n div 10)) = n div 10" by simp
    with False show ?thesis
      by (subst itoa.simps) (simp add: atoi_def digit_value)
  qed
qed

lemma itoa_inject: "itoa m = itoa n \<Longrightarrow> m = n"
  by (metis atoi_itoa)
lemma wellNumbered_New: "wellNumbered NewImportManager"
  by (simp add: wellNumbered_def NewImportManager_def)

lemma wellNumbered_AddImport: "wellNumbered im \<Longrightarrow> wellNumbered (AddImport im p)"
  by (auto simp: AddImport_cases wellNumbered_def)

lemma wellNumbered_foldl: "wellNumbered im \<Longrightarrow> wellNumbered (foldl AddImport im paths)"
  by (induction paths arbitrary: im) (simp_all add: wellNumbered_AddImport)

lemma wellNumbered_registered: "wellNumbered (registered paths)"
  by (simp add: registered_def addImports_def wellNumbered_foldl wellNumbered_New)

lemma wellNumbered_aliases_distinct:
  assumes "wellNumbered im"
  shows "distinct (map snd (imports_map im))"
proof -
  have "inj_on (\<lambda>k. ''ref'' @ itoa k) (set [1..<length (imports_map im) + 1])"
    by (auto simp: inj_on_def dest: itoa_inject)
  then have "distinct (map (\<lambda>k. ''ref'' @ itoa k) [1..<length (imports_map im) + 1])"
    by (simp add: distinct_map)
  with assms show ?thesis by (simp add: wellNumbered_def)
qed

lemma wellNumbered_next_unused:
  assumes "wellNumbered im"
  shows "''ref'' @ itoa (aliasCounter im) \<notin> snd ` set (imports_map im)"
proof
  assume "''ref'' @ itoa (aliasCounter im) \<in> snd ` set (imports_map im)"
  then have "''ref'' @ itoa (aliasCounter im) \<in> set (map snd (imports_map im))" by simp
  with assms have "''ref'' @ itoa (length (imports_map im) + 1)
                     \<in> set (map (\<lambda>k. ''ref'' @ itoa k) [1..<length (imports_map im) + 1])"
    by (simp add: wellNumbered_def)
  then obtain x where x: "x \<in> set [1..<length (imports_map im) + 1]"
      "''ref'' @ itoa (length (imports_map im) + 1) = ''ref'' @ itoa x"
    unfolding set_map by blast
  from x(2) have "length (imports_map im) + 1 = x" by (auto dest: itoa_inject)
  with x(1) show False by simp
qed

lemma importLines_as_filter:
  "importLines order pattern = map importLine (filter (referenced pattern) order)"
proof -
  have a: "(\<lambda>(importPath, alias). [tab] @ alias @ '' '' @ [dquote] @ importPath @ [dquote]) = importLine"
    by (auto simp: importLine_def)
  have b: "(\<lambda>(importPath, alias). strings_Contains pattern (alias @ ''.'')) = referenced pattern"
    by (auto simp: referenced_def)
  show ?thesis unfolding importLines_def a b ..
qed

lemma importLines_set:
  assumes "range_order im order"
  shows "set (importLines order pattern)
           = importLine ` {entry \<in> set (imports_map im). referenced pattern entry}"
proof -
  from assms have "set order = set (imports_map im)"
    by (metis range_order_def set_mset_mset)
  then show ?thesis by (auto simp: importLines_as_filter)
qed

lemma importLines_count:
  assumes "range_order im order" and "distinct (map fst (imports_map im))"
  shows "length (importLines order pattern)
           = card {path. \<exists>alias. (path, alias) \<in> set (imports_map im) \<and> referenced pattern (path, alias)}"
proof -
  let ?used = "filter (referenced pattern) (imports_map im)"
  have d: "distinct (map fst ?used)"
    using assms(2) by (simp add: distinct_map_filter)
  have "mset (filter (referenced pattern) order) = mset ?used"
    using assms(1) by (simp add: range_order_def)
  then have "length (filter (referenced pattern) order) = length ?used"
    by (metis size_mset)
  also have "\<dots> = card (set (map fst ?used))"
    using d by (metis distinct_card length_map)
  also have "set (map fst ?used)
               = {path. \<exists>alias. (path, alias) \<in> set (imports_map im) \<and> referenced pattern (path, alias)}"
    by force
  finally show ?thesis by (simp add: importLines_as_filter)
qed
lemma registered_tenPaths:
  "registered tenPaths =
     \<lparr>imports_map = [(''a/p1'', ''ref1''), (''a/p2'', ''ref2''), (''a/p3'', ''ref3''), (''a/p4'', ''ref4''),
                     (''a/p5'', ''ref5''), (''a/p6'', ''ref6''), (''a/p7'', ''ref7''), (''a/p8'', ''ref8''),
                     (''a/p9'', ''ref9''), (''a/p10'', ''ref10'')],
      aliasCounter = 11\<rparr>"
  by code_simp

lemma threeUsed_lines:
  "importLines (rev (imports_map (registered tenPaths))) threeUsed
     = [[tab] @ ''ref10 '' @ [dquote] @ ''a/p10'' @ [dquote],
        [tab] @ ''ref7 '' @ [dquote] @ ''a/p7'' @ [dquote],
        [tab] @ ''ref2 '' @ [dquote] @ ''a/p2'' @ [dquote]]"
  unfolding registered_tenPaths by (simp add: importLines_def threeUsed_def)

text \<open>
  C7. For the manager \<open>im\<close> reached by any sequence of registrations and any order in
  which the map is visited: the import lines are exactly the lines of the registered
  entries whose alias followed by a dot occurs in the text, one line for each such path,
  and \<open>RenderImports\<close> wraps them in the import block; registering a path twice is
  registering it once; a registration changes the manager only for a path with a
  separator whose normalized form is not registered yet, which then gets the alias
  \<open>ref\<close> followed by the number of entries plus one, an alias that no entry has; and the
  aliases are \<open>ref1\<close>, \<open>ref2\<close>, ... in order of registration.
\<close>

theorem import_registration_and_rendering:
  assumes "im = registered paths" and "range_order im order"
  shows "length (importLines order pattern)
           = card {path. \<exists>alias. (path, alias) \<in> set (imports_map im) \<and> referenced pattern (path, alias)}
         \<and> set (importLines order pattern)
           = importLine ` {entry \<in> set (imports_map im). referenced pattern entry}
         \<and> RenderImports order im pattern
           = (if imports_map im = [] then []
              else ''import ('' @ [newline] @ strings_Join (importLines order pattern) [newline]
                     @ [newline] @ '')'')
         \<and> AddImport (AddImport im p) p = AddImport im p
         \<and> AddImport im p =
             (if strings_Contains p ''/'' \<and> normalize p \<notin> fst ` set (imports_map im)
              then \<lparr>imports_map = imports_map im
                                    @ [(normalize p, ''ref'' @ itoa (length (imports_map im) + 1))],
                    aliasCounter = aliasCounter im + 1\<rparr>
              else im)
         \<and> ''ref'' @ itoa (length (imports_map im) + 1) \<notin> snd ` set (imports_map im)
         \<and> map snd (imports_map im) = map (\<lambda>k. ''ref'' @ itoa k) [1..<length (imports_map im) + 1]"
proof -
  have w: "wellNumbered im"
    using assms(1) by (simp add: wellNumbered_registered)
  then have c: "aliasCounter im = length (imports_map im) + 1"
    and d: "distinct (map fst (imports_map im))"
    and n: "map snd (imports_map im) = map (\<lambda>k. ''ref'' @ itoa k) [1..<length (imports_map im) + 1]"
    by (simp_all add: wellNumbered_def)
  have u: "''ref'' @ itoa (length (imports_map im) + 1) \<notin> snd ` set (imports_map im)"
    using wellNumbered_next_unused [OF w] c by simp
  have a: "AddImport im p =
             (if strings_Contains p ''/'' \<and> normalize p \<notin> fst ` set (imports_map im)
              then \<lparr>imports_map = imports_map im
                                    @ [(normalize p, ''ref'' @ itoa (length (imports_map im) + 1))],
                    aliasCounter = aliasCounter im + 1\<rparr>
              else im)"
    using AddImport_cases [of im p] c by simp
  show ?thesis
    using importLines_count [OF assms(2) d] importLines_set [OF assms(2)] AddImport_idempotent a u n
      RenderImports_def [of order im pattern]
    by blast
qed

theorem import_registration_and_rendering_witness:
  "range_order (registered tenPaths) (rev (imports_map (registered tenPaths)))
   \<and> length (importLines (rev (imports_map (registered tenPaths))) threeUsed) = 3
   \<and> card {path. \<exists>alias. (path, alias) \<in> set (imports_map (registered tenPaths))
                         \<and> referenced threeUsed (path, alias)} = 3
   \<and> AddImport (registered tenPaths) ''a/p11''
       = \<lparr>imports_map = imports_map (registered tenPaths) @ [(''a/p11'', ''ref11'')],
          aliasCounter = 12\<rparr>
   \<and> AddImport (registered tenPaths) ''a/p4'' = registered tenPaths
   \<and> AddImport (registered tenPaths) ''strings'' = registered tenPaths"
proof -
  have r: "range_order (registered tenPaths) (rev (imports_map (registered tenPaths)))"
    by (simp add: range_order_def)
  have l: "length (importLines (rev (imports_map (registered tenPaths))) threeUsed) = 3"
    by (simp add: threeUsed_lines)
  have n1: "normalize ''a/p11'' = ''a/p11''" unfolding normalize_def by code_simp
  have n2: "normalize ''a/p4'' = ''a/p4''" unfolding normalize_def by code_simp
  have i: "itoa (length (imports_map (registered tenPaths)) + 1) = ''11''" by code_simp
  have m1: "''a/p11'' \<notin> fst ` set (imports_map (registered tenPaths))"
    by (simp add: registered_tenPaths)
  have m2: "''a/p4'' \<in> fst ` set (imports_map (registered tenPaths))"
    by (simp add: registered_tenPaths)
  have k: "aliasCounter (registered tenPaths) + 1 = 12"
    by (simp add: registered_tenPaths)
  note t = import_registration_and_rendering [OF refl r, of threeUsed]
  note count = t [of "[]", THEN conjunct1]
  note add = t [THEN conjunct2, THEN conjunct2, THEN conjunct2, THEN conjunct2, THEN conjunct1]
  from count l have "card {path. \<exists>alias. (path, alias) \<in> set (imports_map (registered tenPaths))
                         \<and> referenced threeUsed (path, alias)} = 3"
    by simp
  moreover from add [of "''a/p11''"] have "AddImport (registered tenPaths) ''a/p11''
       = \<lparr>imports_map = imports_map (registered tenPaths) @ [(''a/p11'', ''ref11'')],
          aliasCounter = 12\<rparr>"
    by (simp only: n1 i m1 k) simp
  moreover from add [of "''a/p4''"] have "AddImport (registered tenPaths) ''a/p4'' = registered tenPaths"
    by (simp only: n2 m2) simp
  moreover from add [of "''strings''"] have "AddImport (registered tenPaths) ''strings'' = registered tenPaths"
    by simp
  ultimately show ?thesis using r l by simp
qed

section \<open>Properties of the field matcher\<close>

lemma fillByName_last:
  "fillByName sfs byName name =
     (case find (\<lambda>f. Name f = name) (rev sfs) of Some f \<Rightarrow> Some f | None \<Rightarrow> byName name)"
proof (induction sfs arbitrary: byName)
  case Nil
  show ?case by simp
next
  case (Cons s sfs)
  show ?case
    by (simp add: Cons.IH find_over_append split: option.splits)
qed

lemma fillByTag_last:
  "v \<noteq> [] \<Longrightarrow>
   fillByTag e tag sfs byTag v =
     (case find (\<lambda>f. tagValue e (Field_Tag f) tag = v) (rev sfs) of
        Some f \<Rightarrow> Some f
      | None \<Rightarrow> byTag v)"
proof (induction sfs arbitrary: byTag)
  case Nil
  show ?case by simp
next
  case (Cons s sfs)
  then show ?case
    by (auto simp: Let_def find_over_append split: option.splits)
qed

lemma firstByTag_find:
  "firstByTag e customTag sourceTag sfs = find (\<lambda>f. tagValue e (Field_Tag f) customTag = sourceTag) sfs"
  by (induction sfs) simp_all

lemma overrideTarget_result:
  "overrideTarget e dest (fillByName sfs Map.empty) tag sfs ov = overrideResult e dest tag sfs ov"
  by (auto simp: overrideTarget_def overrideResult_def Let_def fillByName_last lastNamed_def
        firstByTag_find split: option.splits)

lemma findSourceForDest_match:
  "findSourceForDest e dest (fillByName sfs Map.empty) (fillByTag e tag sfs Map.empty) overrides tag sfs
     = matchField e dest sfs overrides tag"
proof (induction overrides)
  case Nil
  show ?case
    by (simp add: matchField_def fillByName_last fillByTag_last lastNamed_def lastTagged_def Let_def
          split: option.splits)
next
  case (Cons ov overrides)
  then show ?case
    by (simp add: matchField_def overrideTarget_result split: option.splits)
qed

lemma firstResult_skip:
  "list_all (\<lambda>x. rule x = None) pre \<Longrightarrow> firstResult rule (pre @ xs) = firstResult rule xs"
  by (induction pre) simp_all
lemma example_tags:
  "tagValue exampleEnv (Field_Tag (jsonField n ''f'')) ''json'' = ''f''"
  "tagValue exampleEnv (Field_Tag (jsonField n ''g'')) ''json'' = ''g''"
  "tagValue exampleEnv (Field_Tag (jsonField n ''h'')) ''json'' = ''h''"
  "tagValue exampleEnv (Field_Tag (jsonField n ''x'')) ''json'' = ''x''"
  "tagValue exampleEnv (Field_Tag (jsonField n ''dup'')) ''json'' = ''dup''"
  "tagValue exampleEnv (Field_Tag (jsonField n ''dup,omitempty'')) ''json'' = ''dup''"
  "tagValue exampleEnv (Field_Tag (jsonField n ''-'')) ''json'' = []"
  by (simp_all add: tagValue_unfold jsonField_def plainField_def exampleEnv_def tagGet_def dquote_def
        nameChar_def newline_def)

lemma example_names [simp]: "Name (jsonField n v) = n"
  by (simp add: jsonField_def plainField_def)

text \<open>
  C4, as the claim states it, fails: a tag-based override that is declared before the
  name-based override and that resolves wins over it. The destination field \<open>F\<close>, tagged
  \<open>x\<close>, has the tag-based override \<open>x\<close> to \<open>h\<close>, then the name-based override \<open>F\<close> to \<open>G\<close>,
  and a source field \<open>F\<close>; the source chosen is \<open>H\<close>, not \<open>G\<close>.
\<close>

theorem tag_override_declared_first_wins:
  "findSourceForDest exampleEnv (jsonField ''F'' ''x'') (fillByName fiveSources Map.empty)
     (fillByTag exampleEnv ''json'' fiveSources Map.empty) [tagOverride, nameOverride] ''json'' fiveSources
   = Some (jsonField ''H'' ''h'')
   \<and> jsonField ''H'' ''h'' \<noteq> jsonField ''G'' ''g''"
  unfolding findSourceForDest_match
  by (simp add: matchField_def overrideResult_def lastNamed_def fiveSources_def
        tagOverride_def nameOverride_def example_tags)
     (simp add: jsonField_def plainField_def)

text \<open>
  C4, amended. With the lookup maps that \<open>generateFunction\<close> builds, \<open>findSourceForDest\<close>
  is the matcher of the specification: the first override in declaration order that
  yields a result, else the last source field with the destination's name, else the last
  source field with the destination's tag value, and never a tag match on an empty tag
  value (a value \<open>-\<close> or an absent annotation). A name-based override whose source field
  exists is chosen whenever no override declared before it yields a result, whatever
  follows it and whatever the source fields are named.
\<close>

theorem field_matching_precedence:
  "findSourceForDest e dest (fillByName sfs Map.empty) (fillByTag e tag sfs Map.empty) overrides tag sfs
     = matchField e dest sfs overrides tag
   \<and> (list_all (\<lambda>x. overrideResult e dest tag sfs x = None) pre
        \<and> DestField ov = Name dest \<and> DestField ov \<noteq> [] \<and> SourceField ov \<noteq> []
        \<and> lastNamed (SourceField ov) sfs = Some f
      \<longrightarrow> findSourceForDest e dest (fillByName sfs Map.empty) (fillByTag e tag sfs Map.empty)
            (pre @ ov # post) tag sfs = Some f)
   \<and> (tagValue e (Field_Tag dest) tag = [] \<and> lastNamed (Name dest) sfs = None
      \<longrightarrow> findSourceForDest e dest (fillByName sfs Map.empty) (fillByTag e tag sfs Map.empty)
            [] tag sfs = None)"
proof (intro conjI impI)
  show "findSourceForDest e dest (fillByName sfs Map.empty) (fillByTag e tag sfs Map.empty) overrides tag sfs
     = matchField e dest sfs overrides tag"
    by (rule findSourceForDest_match)
next
  assume h: "list_all (\<lambda>x. overrideResult e dest tag sfs x = None) pre
        \<and> DestField ov = Name dest \<and> DestField ov \<noteq> [] \<and> SourceField ov \<noteq> []
        \<and> lastNamed (SourceField ov) sfs = Some f"
  then have "DestField ov \<noteq> []" "DestField ov = Name dest" "SourceField ov \<noteq> []"
      "lastNamed (SourceField ov) sfs = Some f"
    by blast+
  then have "overrideResult e dest tag sfs ov = Some f"
    unfolding overrideResult_def Let_def by (simp only: simp_thms if_True option.case)
  with h show "findSourceForDest e dest (fillByName sfs Map.empty) (fillByTag e tag sfs Map.empty)
            (pre @ ov # post) tag sfs = Some f"
    by (simp add: findSourceForDest_match matchField_def firstResult_skip)
next
  assume "tagValue e (Field_Tag dest) tag = [] \<and> lastNamed (Name dest) sfs = None"
  then show "findSourceForDest e dest (fillByName sfs Map.empty) (fillByTag e tag sfs Map.empty)
            [] tag sfs = None"
    unfolding findSourceForDest_match by (simp add: matchField_def)
qed

theorem field_matching_precedence_witness:
  "findSourceForDest exampleEnv (jsonField ''F'' ''x'') (fillByName fiveSources Map.empty)
     (fillByTag exampleEnv ''json'' fiveSources Map.empty) [nameOverride, tagOverride] ''json'' fiveSources
     = Some (jsonField ''G'' ''g'')
   \<and> findSourceForDest exampleEnv (jsonField ''Z'' ''dup'') (fillByName fiveSources Map.empty)
     (fillByTag exampleEnv ''json'' fiveSources Map.empty) [] ''json'' fiveSources
     = Some (jsonField ''K2'' ''dup,omitempty'')
   \<and> findSourceForDest exampleEnv (jsonField ''Z'' ''-'') (fillByName fiveSources Map.empty)
     (fillByTag exampleEnv ''json'' fiveSources Map.empty) [] ''json'' fiveSources
     = None"
proof -
  have g: "lastNamed (SourceField nameOverride) fiveSources = Some (jsonField ''G'' ''g'')"
    by (simp add: lastNamed_def nameOverride_def fiveSources_def)
  have z: "lastNamed ''Z'' fiveSources = None"
    by (simp add: lastNamed_def fiveSources_def)
  have t: "tagValue exampleEnv (Field_Tag (jsonField ''Z'' ''-'')) ''json'' = []"
    by (simp add: example_tags)
  have n: "DestField nameOverride = Name (jsonField ''F'' ''x'')" "DestField nameOverride \<noteq> []"
      "SourceField nameOverride \<noteq> []"
    by (simp_all add: nameOverride_def)
  have a: "findSourceForDest exampleEnv (jsonField ''F'' ''x'') (fillByName fiveSources Map.empty)
     (fillByTag exampleEnv ''json'' fiveSources Map.empty) ([] @ nameOverride # [tagOverride]) ''json''
     fiveSources = Some (jsonField ''G'' ''g'')"
    using n g
    by (intro field_matching_precedence [THEN conjunct2, THEN conjunct1, THEN mp]) simp
  have b: "findSourceForDest exampleEnv (jsonField ''Z'' ''dup'') (fillByName fiveSources Map.empty)
     (fillByTag exampleEnv ''json'' fiveSources Map.empty) [] ''json'' fiveSources
     = Some (jsonField ''K2'' ''dup,omitempty'')"
    unfolding field_matching_precedence [where pre = "[]" and ov = nameOverride and post = "[]"
        and f = "jsonField ''G'' ''g''", THEN conjunct1]
    by (simp add: matchField_def lastTagged_def lastNamed_def example_tags fiveSources_def)
  have c: "findSourceForDest exampleEnv (jsonField ''Z'' ''-'') (fillByName fiveSources Map.empty)
     (fillByTag exampleEnv ''json'' fiveSources Map.empty) [] ''json'' fiveSources
     = None"
    using t z
    by (intro field_matching_precedence [where pre = "[]" and ov = nameOverride and post = "[]"
          and f = "jsonField ''G'' ''g''" and overrides = "[]",
          THEN conjunct2, THEN conjunct2, THEN mp]) simp
  from a b c show ?thesis by simp
qed

section \<open>Properties of type resolution\<close>

text \<open>
  C2. The claim: an alias to a type of another, imported module is followed. The callback
  handles a struct type and an identifier; on a declaration whose type is a selector
  expression, as the qualified name of \<open>type A = p2.B\<close> is, it changes nothing. So the
  resolution of \<open>A\<close> in \<open>ex/p1\<close> ends with the error that the type is not found. The alias
  \<open>type C = D\<close> inside one package is followed.
\<close>

theorem qualified_alias_is_not_followed:
  "inspectTypeSpec recur e pkgPath typeName f \<lparr>TS_Name = name, TS_Type = SelectorExpr x sel\<rparr> fnd st
     = Some (Inr fnd, st)
   \<and> map_option fst (findStructDefinition (Suc fuel) exampleEnv NewPackageManager ''ex/p1'' ''A'')
     = Some (Inl (Err ''type A not found in package ex/p1''))
   \<and> map_option fst (findStructDefinition (Suc (Suc fuel)) exampleEnv NewPackageManager ''ex/p1'' ''C'')
     = Some (Inr ([Field [''X''] (Ident ''int'') None], ''ex/p1''))"
  by (simp add: findStructDefinition_def findStructDefinitionRecursive_body_def GetPackage_def
        loadPackage_def exampleEnv_def exampleLoad_def exampleParse_def NewPackageManager_def
        inspectTypeSpec_def afterRecursion_def Let_def)

lemma GetPackage_cyc:
  "cycCache pm \<Longrightarrow>
   GetPackage (Load exampleEnv) pm ''ex/cyc'' = ((Some cycPackage, None), pm(''ex/cyc'' := Some (Some cycPackage)))"
  by (auto simp: cycCache_def GetPackage_def loadPackage_def exampleEnv_def exampleLoad_def
        cycPackage_def fun_eq_iff)

lemma cycCache_upd: "cycCache (pm(''ex/cyc'' := Some (Some cycPackage)))"
  by (simp add: cycCache_def)

lemma find_cyc_A:
  "cycCache pm \<Longrightarrow>
   findStructDefinition (Suc fuel) exampleEnv pm ''ex/cyc'' ''A''
     = Some (Inr ([Field [] (StarExpr (Ident ''B'')) None], ''ex/cyc''),
             pm(''ex/cyc'' := Some (Some cycPackage)))"
  by (simp add: findStructDefinition_def findStructDefinitionRecursive_body_def GetPackage_cyc)
     (simp add: cycPackage_def exampleEnv_def exampleParse_def inspectTypeSpec_def)

lemma find_cyc_B:
  "cycCache pm \<Longrightarrow>
   findStructDefinition (Suc fuel) exampleEnv pm ''ex/cyc'' ''B''
     = Some (Inr ([Field [] (StarExpr (Ident ''A'')) None], ''ex/cyc''),
             pm(''ex/cyc'' := Some (Some cycPackage)))"
  by (simp add: findStructDefinition_def findStructDefinitionRecursive_body_def GetPackage_cyc)
     (simp add: cycPackage_def exampleEnv_def exampleParse_def inspectTypeSpec_def)

lemma extract_cyc_step_A:
  "cycCache pm \<Longrightarrow>
   extractFieldsFromPackage (Suc fuel) exampleEnv pm ''ex/cyc'' ''A''
     = (case extractFieldsFromPackage fuel exampleEnv (pm(''ex/cyc'' := Some (Some cycPackage))) ''ex/cyc'' ''B'' of
          None \<Rightarrow> None
        | Some (Inl f, pm') \<Rightarrow> Some (Inl (wrap ''failed to expand embedded field: '' f), pm')
        | Some (Inr embeddedFields, pm') \<Rightarrow> Some (Inr embeddedFields, pm'))"
  by (simp add: extractFieldsFromPackage_body_def find_cyc_A findImportSpecsForExpression_def
        pkgAliasVisitor_def expandEmbeddedFields_def split: option.splits sum.splits prod.splits)

lemma extract_cyc_step_B:
  "cycCache pm \<Longrightarrow>
   extractFieldsFromPackage (Suc fuel) exampleEnv pm ''ex/cyc'' ''B''
     = (case extractFieldsFromPackage fuel exampleEnv (pm(''ex/cyc'' := Some (Some cycPackage))) ''ex/cyc'' ''A'' of
          None \<Rightarrow> None
        | Some (Inl f, pm') \<Rightarrow> Some (Inl (wrap ''failed to expand embedded field: '' f), pm')
        | Some (Inr embeddedFields, pm') \<Rightarrow> Some (Inr embeddedFields, pm'))"
  by (simp add: extractFieldsFromPackage_body_def find_cyc_B findImportSpecsForExpression_def
        pkgAliasVisitor_def expandEmbeddedFields_def split: option.splits sum.splits prod.splits)

lemma extract_cyc_diverges:
  "cycCache pm \<Longrightarrow>
   extractFieldsFromPackage fuel exampleEnv pm ''ex/cyc'' ''A'' = None
   \<and> extractFieldsFromPackage fuel exampleEnv pm ''ex/cyc'' ''B'' = None"
proof (induction fuel arbitrary: pm)
  case 0
  show ?case by simp
next
  case (Suc fuel)
  have "cycCache (pm(''ex/cyc'' := Some (Some cycPackage)))" by (rule cycCache_upd)
  from Suc.IH [OF this] show ?case
    by (simp only: extract_cyc_step_A [OF Suc.prems] extract_cyc_step_B [OF Suc.prems] option.case)
qed
lemma unaliased_cyc: "GetUnaliasedType (From cycMapping) = ''A''"
  by code_simp

lemma cycCache_New: "cycCache NewPackageManager"
  by (simp add: cycCache_def NewPackageManager_def)

text \<open>
  C3. The claim: type resolution always terminates, every cycle being caught by the
  visited set. Each expansion of an embedded field starts a resolution with an empty
  visited set, so on the structs \<open>A\<close> and \<open>B\<close> of \<open>ex/cyc\<close>, which embed a pointer to each
  other, the extraction of the fields of \<open>A\<close> returns for no bound on the depth of the
  calls, and neither does \<open>Generate\<close> on a mapping from \<open>A\<close>.
\<close>

theorem embedded_cycle_never_returns:
  "extractFieldsFromPackage fuel exampleEnv NewPackageManager ''ex/cyc'' ''A'' = None
   \<and> Generate fuel visit_order exampleEnv (NewGenerator cycConfig []) = None"
proof
  show a: "extractFieldsFromPackage fuel exampleEnv NewPackageManager ''ex/cyc'' ''A'' = None"
    using extract_cyc_diverges [OF cycCache_New] by simp
  have e: "extractSide fuel exampleEnv g (From cycMapping) ''from'' = None"
    if "packageManager g = NewPackageManager" for g
    using a that by (simp add: extractSide_def unaliased_cyc) (simp add: cycMapping_def)
  have m: "mappingsLoop fuel exampleEnv g [cycMapping] [] = None"
    if "packageManager g = NewPackageManager" for g
    using that by (simp add: Let_def e)
  show "Generate fuel visit_order exampleEnv (NewGenerator cycConfig []) = None"
    by (simp add: Generate_def NewGenerator_def cycConfig_def Let_def m del: mappingsLoop.simps)
qed

section \<open>Properties of the generated text\<close>

lemma gen_id: "Generate 3 id exampleEnv (NewGenerator exampleConfig [])
     = Some (Inr (exampleOutput importLine1 importLine2))"
  by code_simp

lemma gen_rev: "Generate 3 rev exampleEnv (NewGenerator exampleConfig [])
     = Some (Inr (exampleOutput importLine2 importLine1))"
  by code_simp

lemma out_differ: "exampleOutput importLine1 importLine2 \<noteq> exampleOutput importLine2 importLine1"
  by code_simp

text \<open>
  C1. The claim: two runs on the same input return the same text, the order of the import
  lines included. The import lines are appended in the order in which the \<open>range\<close> over
  the import map visits its entries, which the Go runtime chooses anew for every loop.
  Listing the entries forwards and backwards are two such orders; with them, the same
  configuration, conversions and packages give two texts that differ in the import
  block.
\<close>

theorem import_block_order_depends_on_map_iteration:
  "range_order im (id (imports_map im)) \<and> range_order im (rev (imports_map im))
   \<and> Generate 3 id exampleEnv (NewGenerator exampleConfig [])
       = Some (Inr (exampleOutput importLine1 importLine2))
   \<and> Generate 3 rev exampleEnv (NewGenerator exampleConfig [])
       = Some (Inr (exampleOutput importLine2 importLine1))
   \<and> exampleOutput importLine1 importLine2 \<noteq> exampleOutput importLine2 importLine1"
  using gen_id gen_rev out_differ by (simp add: range_order_def)

end
